theory Spec2Isabelle
  imports Main "HOL-Library.Word"
begin

unbundle bit_operations_syntax

section \<open>Basic types\<close>

text \<open>
  A \<open>chainhash.Hash\<close> is identified with the string that \<open>Hash.String()\<close> prints;
  database row identifiers (\<open>uint64\<close>, assigned serially by the store) are natural
  numbers, and \<open>int64\<close> counters are integers (none of them comes near its bound).
\<close>

type_synonym hash = string
type_synonym rowid = nat

definition zeroHash :: hash where
  "zeroHash = replicate 64 (CHR ''0'')"

text \<open>\<open>wire.TxTreeRegular\<close> and \<open>wire.TxTreeStake\<close>.\<close>

datatype tree = TxTreeRegular | TxTreeStake

text \<open>The transaction types of \<open>stake.DetermineTxType\<close>.\<close>

datatype txtype = TxTypeRegular | TxTypeSStx | TxTypeSSGen | TxTypeSSRtx

text \<open>\<open>dbtypes.TicketSpendType\<close> and \<open>dbtypes.TicketPoolStatus\<close>; the first
  constructor of each is the Go zero value.\<close>

datatype TicketSpendType = TicketUnspent | TicketRevoked | TicketVoted

datatype TicketPoolStatus = PoolStatusLive | PoolStatusVoted | PoolStatusExpired | PoolStatusMissed

text \<open>The operations of the row store, named for fault injection and error values.\<close>

datatype dbop =
    OpInsertVouts | OpInsertVins | OpInsertTxns | OpInsertTickets | OpInsertVotes
  | OpRetrieveTicketIDByHash | OpSetSpendingForTickets | OpSetPoolStatusForTicketsByHash
  | OpInsertAddressRows | OpSetSpendingForFundingOP
  | OpInsertBlock | OpInsertBlockPrevNext | OpRetrieveBlockStatus | OpRetrieveBlockChainDbID
  | OpUpdateLastBlockValid | OpUpdateBlockNext | OpUpdateLastVins | OpUpdateTransactionsValid
  | OpUpdateLastAddressesValid
  | OpSetMainchainByBlockHash | OpUpdateTransactionsMainchain | OpRetrieveTxnsVinsVoutsByBlock
  | OpSetIsMainchainByVinID | OpUpdateAddressesMainchainByIDs | OpUpdateVotesMainchain
  | OpUpdateTicketsMainchain | OpRetrieveBlockHeight | OpRowsAffected

text \<open>
  Errors as values. \<open>ErrNoRows\<close> is \<open>sql.ErrNoRows\<close>; \<open>ErrStorage\<close> is any other
  failure of a row-store operation; the remaining constructors are the errors that the
  source builds with \<open>fmt.Errorf\<close> and \<open>errors.New\<close>. \<open>Panic\<close> is a Go panic, which
  no caller in the source recovers.
\<close>

datatype error =
    ErrNoRows
  | ErrStorage dbop
  | ErrPoolInfo hash
  | ErrJoined error error
  | ErrStakeTxCount nat nat
  | ErrTxidMismatch
  | ErrTicketDbID hash error
  | ErrVinData hash error
  | ErrNoChartsData
  | ErrDisabled
  | ErrHashStr
  | Panic string

section \<open>The row store\<close>

subsection \<open>Tables\<close>

text \<open>
  A table is the list of its rows in insertion order; the row identifier of a row is its
  position, counted from 1, and rows are never deleted.
\<close>

fun find_id_from :: "nat \<Rightarrow> ('r \<Rightarrow> bool) \<Rightarrow> 'r list \<Rightarrow> rowid option" where
  "find_id_from n P [] = None"
| "find_id_from n P (r # rs) = (if P r then Some n else find_id_from (Suc n) P rs)"

definition find_id :: "('r \<Rightarrow> bool) \<Rightarrow> 'r list \<Rightarrow> rowid option" where
  "find_id P t = find_id_from 1 P t"


text \<open>
  Modelled from the spec: the duplicate-safe insert of the Row Store. With the duplicate
  check, a row whose natural key is already present leaves the table as it is and the
  identifier of the present row is returned; otherwise, and always without the check
  (\<open>EnableDuplicateCheckOnInsert\<close>: whether insertions ``check for row conflicts
  (duplicates), and avoid adding or updating''), the row is appended under the next
  identifier.
\<close>

definition insert_row :: "bool \<Rightarrow> ('r \<Rightarrow> 'k) \<Rightarrow> 'r \<Rightarrow> 'r list \<Rightarrow> 'r list \<times> rowid" where
  "insert_row checked key r t =
     (case (if checked then find_id (\<lambda>x. key x = key r) t else None) of
        Some i \<Rightarrow> (t, i)
      | None \<Rightarrow> (t @ [r], Suc (length t)))"

fun insert_rows :: "bool \<Rightarrow> ('r \<Rightarrow> 'k) \<Rightarrow> 'r list \<Rightarrow> 'r list \<Rightarrow> 'r list \<times> rowid list" where
  "insert_rows checked key [] t = (t, [])"
| "insert_rows checked key (r # rs) t =
     (let (t1, i) = insert_row checked key r t;
          (t2, ids) = insert_rows checked key rs t1
      in (t2, i # ids))"

text \<open>A targeted update: the rows that satisfy \<open>P\<close> are changed by \<open>f\<close>, and the number
  of rows affected is reported.\<close>

definition update_where :: "('r \<Rightarrow> bool) \<Rightarrow> ('r \<Rightarrow> 'r) \<Rightarrow> 'r list \<Rightarrow> 'r list \<times> int" where
  "update_where P f t = (map (\<lambda>r. if P r then f r else r) t, int (length (filter P t)))"

definition update_id :: "rowid \<Rightarrow> ('r \<Rightarrow> 'r) \<Rightarrow> 'r list \<Rightarrow> 'r list \<times> int" where
  "update_id i f t =
     (if 1 \<le> i \<and> i \<le> length t then (t[i - 1 := f (t ! (i - 1))], 1) else (t, 0))"

subsection \<open>Rows\<close>

text \<open>
  The row types carry the fields of \<open>dbtypes.Vout\<close>, \<open>dbtypes.VinTxProperty\<close>,
  \<open>dbtypes.Tx\<close>, \<open>dbtypes.AddressRow\<close> and \<open>dbtypes.Block\<close> that the block
  ingestor and the reorg handler read or write, and the columns of the tickets, votes,
  misses, blocks and block_chain tables that the spec's data model names.
\<close>

record Vout =
  vo_TxHash :: hash
  vo_TxIndex :: nat
  vo_TxTree :: tree
  vo_Value :: int
  vo_Addresses :: "string list"

record VinTxProperty =
  vi_TxID :: hash
  vi_TxIndex :: nat
  vi_TxTree :: tree
  vi_TxType :: txtype
  vi_PrevTxHash :: hash
  vi_PrevTxIndex :: nat
  vi_PrevTxTree :: tree
  vi_IsValid :: bool
  vi_IsMainchain :: bool

record Tx =
  tx_BlockHash :: hash
  tx_BlockTime :: int
  tx_TxType :: txtype
  tx_Tree :: tree
  tx_TxID :: hash
  tx_Vouts :: "Vout list"
  tx_VinDbIds :: "rowid list"
  tx_VoutDbIds :: "rowid list"
  tx_IsValidBlock :: bool
  tx_IsMainchainBlock :: bool

record AddressRow =
  ar_Address :: string
  ar_TxHash :: hash
  ar_TxVinVoutIndex :: nat
  ar_VinVoutDbID :: rowid
  ar_Value :: int
  ar_TxBlockTime :: int
  ar_IsFunding :: bool
  ar_ValidMainChain :: bool
  ar_MatchingTxHash :: hash

record Block =
  bk_Hash :: hash
  bk_Height :: nat
  bk_PreviousHash :: hash
  bk_VoteBits :: "16 word"
  bk_TxDbIDs :: "rowid list"
  bk_STxDbIDs :: "rowid list"

record block_row =
  bl_block :: Block
  bl_is_valid :: bool
  bl_is_mainchain :: bool

record block_chain_row =
  bc_block_db_id :: rowid
  bc_prev_hash :: hash
  bc_this_hash :: hash
  bc_next_hash :: hash

record ticket_row =
  tk_tx_hash :: hash
  tk_block_hash :: hash
  tk_purchase_tx_db_id :: rowid
  tk_pool_status :: TicketPoolStatus
  tk_spend_type :: TicketSpendType
  tk_spend_height :: int
  tk_spend_tx_db_id :: rowid
  tk_is_mainchain :: bool

record vote_row =
  vt_tx_hash :: hash
  vt_block_hash :: hash
  vt_ticket_hash :: hash
  vt_is_mainchain :: bool

record miss_row =
  ms_block_hash :: hash
  ms_ticket_hash :: hash

text \<open>
  The store: one list per table, and the set of operations that are at present failing
  (the spec's \<^emph>\<open>storage-unavailable\<close> condition). A failing operation returns
  \<open>ErrStorage\<close> and leaves every table as it is.
\<close>

record sqlDB =
  db_vouts :: "Vout list"
  db_vins :: "VinTxProperty list"
  db_transactions :: "Tx list"
  db_tickets :: "ticket_row list"
  db_votes :: "vote_row list"
  db_misses :: "miss_row list"
  db_blocks :: "block_row list"
  db_block_chain :: "block_chain_row list"
  db_addresses :: "AddressRow list"
  db_failing :: "dbop set"

definition fails :: "sqlDB \<Rightarrow> dbop \<Rightarrow> bool" where
  "fails d opn = (opn \<in> db_failing d)"

text \<open>Natural keys.\<close>

definition vout_key :: "Vout \<Rightarrow> hash \<times> nat \<times> tree" where
  "vout_key v = (vo_TxHash v, vo_TxIndex v, vo_TxTree v)"

definition vin_key :: "VinTxProperty \<Rightarrow> hash \<times> nat \<times> tree" where
  "vin_key v = (vi_TxID v, vi_TxIndex v, vi_TxTree v)"

definition tx_key :: "Tx \<Rightarrow> hash \<times> hash" where
  "tx_key t = (tx_TxID t, tx_BlockHash t)"

definition ticket_key :: "ticket_row \<Rightarrow> hash \<times> hash" where
  "ticket_key t = (tk_tx_hash t, tk_block_hash t)"

definition vote_key :: "vote_row \<Rightarrow> hash \<times> hash" where
  "vote_key v = (vt_tx_hash v, vt_block_hash v)"

definition miss_key :: "miss_row \<Rightarrow> hash \<times> hash" where
  "miss_key m = (ms_ticket_hash m, ms_block_hash m)"

definition block_key :: "block_row \<Rightarrow> hash" where
  "block_key b = bk_Hash (bl_block b)"

definition address_key :: "AddressRow \<Rightarrow> string \<times> hash \<times> nat \<times> bool" where
  "address_key a = (ar_Address a, ar_TxHash a, ar_TxVinVoutIndex a, ar_IsFunding a)"

text \<open>\<open>TicketTxnIDGetter\<close>, the cache of ticket row identifiers by ticket hash. Its
  reader/writer lock has no sequential content.\<close>

record TicketTxnIDGetter =
  idCache :: "hash \<rightharpoonup> rowid"

subsection \<open>Insert operations\<close>

text \<open>
  Modelled from the spec: the insert operations of the Row Store (\<open>InsertVouts\<close>,
  \<open>InsertVins\<close>, \<open>InsertTxns\<close>, \<open>InsertTickets\<close>, \<open>InsertVotes\<close>,
  \<open>InsertAddressRows\<close>, \<open>InsertBlock\<close>, \<open>InsertBlockPrevNext\<close>), whose code is not
  part of the sources at hand. Each is the duplicate-safe insert above on its table, and
  returns the row identifiers in the order of its input, as the callers in
  \<open>storeTxns\<close> and \<open>StoreBlock\<close> expect. A Go function returning \<open>(v, err)\<close> is a tuple
  whose last component is the optional error; on an error the values are the zero values.
\<close>

definition addressRowsOfVout :: "Vout \<Rightarrow> rowid \<Rightarrow> AddressRow list" where
  "addressRowsOfVout v i =
     map (\<lambda>a. \<lparr>ar_Address = a, ar_TxHash = vo_TxHash v, ar_TxVinVoutIndex = vo_TxIndex v,
               ar_VinVoutDbID = i, ar_Value = vo_Value v, ar_TxBlockTime = 0,
               ar_IsFunding = False, ar_ValidMainChain = False, ar_MatchingTxHash = []\<rparr>)
         (vo_Addresses v)"

definition InsertVouts ::
  "sqlDB \<Rightarrow> Vout list \<Rightarrow> bool \<Rightarrow> sqlDB \<times> rowid list \<times> AddressRow list \<times> error option" where
  "InsertVouts d dbVouts checked =
     (if fails d OpInsertVouts then (d, [], [], Some (ErrStorage OpInsertVouts))
      else (case insert_rows checked vout_key dbVouts (db_vouts d) of
              (t, ids) \<Rightarrow>
                (d\<lparr>db_vouts := t\<rparr>, ids,
                 concat (map (\<lambda>(v, i). addressRowsOfVout v i) (zip dbVouts ids)), None)))"

definition InsertVins ::
  "sqlDB \<Rightarrow> VinTxProperty list \<Rightarrow> bool \<Rightarrow> sqlDB \<times> rowid list \<times> error option" where
  "InsertVins d dbVins checked =
     (if fails d OpInsertVins then (d, [], Some (ErrStorage OpInsertVins))
      else (case insert_rows checked vin_key dbVins (db_vins d) of
              (t, ids) \<Rightarrow> (d\<lparr>db_vins := t\<rparr>, ids, None)))"

definition InsertTxns :: "sqlDB \<Rightarrow> Tx list \<Rightarrow> bool \<Rightarrow> sqlDB \<times> rowid list \<times> error option" where
  "InsertTxns d dbTxns checked =
     (if fails d OpInsertTxns then (d, [], Some (ErrStorage OpInsertTxns))
      else (case insert_rows checked tx_key dbTxns (db_transactions d) of
              (t, ids) \<Rightarrow> (d\<lparr>db_transactions := t\<rparr>, ids, None)))"

text \<open>New tickets are the ticket purchases (\<open>TxTypeSStx\<close>) among the transactions; they
  enter the pool live and unspent.\<close>

definition newTicketRow :: "Tx \<Rightarrow> rowid \<Rightarrow> ticket_row" where
  "newTicketRow tx i =
     \<lparr>tk_tx_hash = tx_TxID tx, tk_block_hash = tx_BlockHash tx, tk_purchase_tx_db_id = i,
      tk_pool_status = PoolStatusLive, tk_spend_type = TicketUnspent, tk_spend_height = 0,
      tk_spend_tx_db_id = 0, tk_is_mainchain = tx_IsMainchainBlock tx\<rparr>"

definition InsertTickets ::
  "sqlDB \<Rightarrow> Tx list \<Rightarrow> rowid list \<Rightarrow> bool \<Rightarrow> sqlDB \<times> rowid list \<times> Tx list \<times> error option" where
  "InsertTickets d dbTxns txDbIDs checked =
     (if fails d OpInsertTickets then (d, [], [], Some (ErrStorage OpInsertTickets))
      else (let tks = filter (\<lambda>(tx, i). tx_TxType tx = TxTypeSStx) (zip dbTxns txDbIDs)
            in case insert_rows checked ticket_key (map (\<lambda>(tx, i). newTicketRow tx i) tks)
                      (db_tickets d) of
                 (t, ids) \<Rightarrow> (d\<lparr>db_tickets := t\<rparr>, ids, map fst tks, None)))"

definition InsertAddressRows ::
  "sqlDB \<Rightarrow> AddressRow list \<Rightarrow> bool \<Rightarrow> sqlDB \<times> rowid list \<times> error option" where
  "InsertAddressRows d dbAs checked =
     (if fails d OpInsertAddressRows then (d, [], Some (ErrStorage OpInsertAddressRows))
      else (case insert_rows checked address_key dbAs (db_addresses d) of
              (t, ids) \<Rightarrow> (d\<lparr>db_addresses := t\<rparr>, ids, None)))"

definition InsertBlock :: "sqlDB \<Rightarrow> Block \<Rightarrow> bool \<Rightarrow> bool \<Rightarrow> bool \<Rightarrow> sqlDB \<times> rowid \<times> error option" where
  "InsertBlock d dbBlock isValid isMainchain checked =
     (if fails d OpInsertBlock then (d, 0, Some (ErrStorage OpInsertBlock))
      else (case insert_row checked block_key
                   \<lparr>bl_block = dbBlock, bl_is_valid = isValid, bl_is_mainchain = isMainchain\<rparr>
                   (db_blocks d) of
              (t, i) \<Rightarrow> (d\<lparr>db_blocks := t\<rparr>, i, None)))"

text \<open>\<open>InsertBlockPrevNext\<close> takes no duplicate-check flag; it is duplicate-safe on the
  block's own hash.\<close>

definition InsertBlockPrevNext :: "sqlDB \<Rightarrow> rowid \<Rightarrow> hash \<Rightarrow> hash \<Rightarrow> hash \<Rightarrow> sqlDB \<times> error option" where
  "InsertBlockPrevNext d blockDbID hash prev nxt =
     (if fails d OpInsertBlockPrevNext then (d, Some (ErrStorage OpInsertBlockPrevNext))
      else (case insert_row True bc_this_hash
                   \<lparr>bc_block_db_id = blockDbID, bc_prev_hash = prev, bc_this_hash = hash,
                    bc_next_hash = nxt\<rparr>
                   (db_block_chain d) of
              (t, i) \<Rightarrow> (d\<lparr>db_block_chain := t\<rparr>, None)))"

subsection \<open>Raw blocks\<close>

text \<open>
  A \<open>wire.MsgBlock\<close> as the ingestor reads it: the header fields, the hash of the block,
  and the two transaction trees. Of a \<open>wire.MsgTx\<close>: its hash, its stake type, the
  previous outpoint of each input, and value and addresses of each output.
\<close>

record OutPoint =
  op_Hash :: hash
  op_Index :: nat
  op_Tree :: tree

record MsgTx =
  mt_TxHash :: hash
  mt_Type :: txtype
  mt_TxIn :: "OutPoint list"
  mt_TxOut :: "(int \<times> string list) list"

record MsgBlock =
  mb_BlockHash :: hash
  mb_PrevBlock :: hash
  mb_Height :: nat
  mb_VoteBits :: "16 word"
  mb_Time :: int
  mb_Transactions :: "MsgTx list"
  mb_STransactions :: "MsgTx list"

record MsgBlockPG =
  pg_MsgBlock :: MsgBlock
  pg_WinningTickets :: "string list"
  pg_Validators :: "string list"

text \<open>The ticket that a vote spends is the previous outpoint of its second input.\<close>

definition votedTicket :: "MsgTx \<Rightarrow> hash option" where
  "votedTicket mtx = (if 1 < length (mt_TxIn mtx) then Some (op_Hash (mt_TxIn mtx ! 1)) else None)"

definition voteRows :: "Tx list \<Rightarrow> MsgTx list \<Rightarrow> vote_row list" where
  "voteRows dbTxns msgTxns =
     concat (map (\<lambda>(tx, mtx).
        if tx_TxType tx = TxTypeSSGen
        then (case votedTicket mtx of
                None \<Rightarrow> []
              | Some h \<Rightarrow> [\<lparr>vt_tx_hash = tx_TxID tx, vt_block_hash = tx_BlockHash tx,
                           vt_ticket_hash = h, vt_is_mainchain = tx_IsMainchainBlock tx\<rparr>])
        else []) (zip dbTxns msgTxns))"

text \<open>
  Modelled from the spec: \<open>InsertVotes\<close> inserts the votes of the stake tree and obtains
  the misses, the validators (winning tickets of the previous block) that no vote of this
  block spends; a miss row is inserted for each, and the misses are returned with their
  row identifiers. The Go map that is returned is an association list here, in the order
  of the validators.
\<close>

definition InsertVotes ::
  "sqlDB \<Rightarrow> Tx list \<Rightarrow> rowid list \<Rightarrow> TicketTxnIDGetter option \<Rightarrow> MsgBlockPG \<Rightarrow> bool
     \<Rightarrow> sqlDB \<times> (hash \<times> rowid) list \<times> error option" where
  "InsertVotes d dbTxns txDbIDs fTx msgBlock checked =
     (if fails d OpInsertVotes then (d, [], Some (ErrStorage OpInsertVotes))
      else (let vrows = voteRows dbTxns (mb_STransactions (pg_MsgBlock msgBlock));
                missed = filter (\<lambda>h. h \<notin> set (map vt_ticket_hash vrows))
                           (remdups (pg_Validators msgBlock))
            in case insert_rows checked vote_key vrows (db_votes d) of
                 (tv, vids) \<Rightarrow>
                   (case insert_rows checked miss_key
                           (map (\<lambda>h. \<lparr>ms_block_hash = mb_BlockHash (pg_MsgBlock msgBlock),
                                      ms_ticket_hash = h\<rparr>) missed)
                           (db_misses d) of
                      (tm, mids) \<Rightarrow>
                        (d\<lparr>db_votes := tv, db_misses := tm\<rparr>, zip missed mids, None))))"

subsection \<open>Retrievals\<close>

text \<open>
  Modelled from the spec: point retrievals fail with the not-found condition
  \<open>sql.ErrNoRows\<close> when no row matches.
\<close>

definition RetrieveTicketIDByHash :: "sqlDB \<Rightarrow> hash \<Rightarrow> rowid \<times> error option" where
  "RetrieveTicketIDByHash d ticketHash =
     (if fails d OpRetrieveTicketIDByHash then (0, Some (ErrStorage OpRetrieveTicketIDByHash))
      else (case find_id (\<lambda>t. tk_tx_hash t = ticketHash) (db_tickets d) of
              None \<Rightarrow> (0, Some ErrNoRows)
            | Some i \<Rightarrow> (i, None)))"

record BlockStatus =
  bs_IsValid :: bool
  bs_IsMainchain :: bool
  bs_Height :: nat
  bs_PrevHash :: hash
  bs_Hash :: hash

definition zeroBlockStatus :: BlockStatus where
  "zeroBlockStatus =
     \<lparr>bs_IsValid = False, bs_IsMainchain = False, bs_Height = 0, bs_PrevHash = [], bs_Hash = []\<rparr>"

definition find_row :: "('r \<Rightarrow> bool) \<Rightarrow> 'r list \<Rightarrow> 'r option" where
  "find_row P t = List.find P t"

definition RetrieveBlockStatus :: "sqlDB \<Rightarrow> hash \<Rightarrow> BlockStatus \<times> error option" where
  "RetrieveBlockStatus d h =
     (if fails d OpRetrieveBlockStatus then (zeroBlockStatus, Some (ErrStorage OpRetrieveBlockStatus))
      else (case find_row (\<lambda>b. block_key b = h) (db_blocks d) of
              None \<Rightarrow> (zeroBlockStatus, Some ErrNoRows)
            | Some b \<Rightarrow>
                (\<lparr>bs_IsValid = bl_is_valid b, bs_IsMainchain = bl_is_mainchain b,
                  bs_Height = bk_Height (bl_block b),
                  bs_PrevHash = bk_PreviousHash (bl_block b), bs_Hash = h\<rparr>, None)))"

definition RetrieveBlockChainDbID :: "sqlDB \<Rightarrow> hash \<Rightarrow> rowid \<times> error option" where
  "RetrieveBlockChainDbID d h =
     (if fails d OpRetrieveBlockChainDbID then (0, Some (ErrStorage OpRetrieveBlockChainDbID))
      else (case find_row (\<lambda>c. bc_this_hash c = h) (db_block_chain d) of
              None \<Rightarrow> (0, Some ErrNoRows)
            | Some c \<Rightarrow> (bc_block_db_id c, None)))"

definition RetrieveBlockHeight :: "sqlDB \<Rightarrow> hash \<Rightarrow> int \<times> error option" where
  "RetrieveBlockHeight d h =
     (if fails d OpRetrieveBlockHeight then (0, Some (ErrStorage OpRetrieveBlockHeight))
      else (case find_row (\<lambda>b. block_key b = h) (db_blocks d) of
              None \<Rightarrow> (0, Some ErrNoRows)
            | Some b \<Rightarrow> (int (bk_Height (bl_block b)), None)))"

text \<open>The rows of the transactions table that belong to a block.\<close>

definition blockTxns :: "sqlDB \<Rightarrow> hash \<Rightarrow> bool \<Rightarrow> Tx list" where
  "blockTxns d blockHash onlyRegular =
     filter (\<lambda>t. tx_BlockHash t = blockHash \<and> (onlyRegular \<longrightarrow> tx_Tree t = TxTreeRegular))
       (db_transactions d)"

definition RetrieveTxnsVinsVoutsByBlock ::
  "sqlDB \<Rightarrow> hash \<Rightarrow> bool \<Rightarrow> rowid list list \<times> rowid list list \<times> bool list \<times> error option" where
  "RetrieveTxnsVinsVoutsByBlock d blockHash onlyRegular =
     (if fails d OpRetrieveTxnsVinsVoutsByBlock
      then ([], [], [], Some (ErrStorage OpRetrieveTxnsVinsVoutsByBlock))
      else (let txs = blockTxns d blockHash onlyRegular
            in (map tx_VinDbIds txs, map tx_VoutDbIds txs, map tx_IsMainchainBlock txs, None)))"

subsection \<open>Targeted updates\<close>

text \<open>
  Modelled from the spec: the targeted update operations of the Row Store. They act on
  the rows named by identifier, by ticket hash or by block hash, and report the number of
  rows affected; a count that is not the expected one is no error.
\<close>

fun setSpendingRows ::
  "(rowid \<times> rowid \<times> int \<times> TicketSpendType \<times> TicketPoolStatus) list \<Rightarrow> ticket_row list
     \<Rightarrow> ticket_row list \<times> int" where
  "setSpendingRows [] t = (t, 0)"
| "setSpendingRows ((tid, sid, h, st, ps) # rest) t =
     (case update_id tid (\<lambda>r. r\<lparr>tk_spend_type := st, tk_spend_height := h,
                                 tk_spend_tx_db_id := sid, tk_pool_status := ps\<rparr>) t of
        (t1, n1) \<Rightarrow> (case setSpendingRows rest t1 of (t2, n2) \<Rightarrow> (t2, n1 + n2)))"

definition SetSpendingForTickets ::
  "sqlDB \<Rightarrow> rowid list \<Rightarrow> rowid list \<Rightarrow> int list \<Rightarrow> TicketSpendType list \<Rightarrow> TicketPoolStatus list
     \<Rightarrow> sqlDB \<times> int \<times> error option" where
  "SetSpendingForTickets d ticketDbIDs spendDbIDs blockHeights spendTypes poolStatuses =
     (if fails d OpSetSpendingForTickets then (d, 0, Some (ErrStorage OpSetSpendingForTickets))
      else (case setSpendingRows
                   (zip ticketDbIDs (zip spendDbIDs (zip blockHeights (zip spendTypes poolStatuses))))
                   (db_tickets d) of
              (t, n) \<Rightarrow> (d\<lparr>db_tickets := t\<rparr>, n, None)))"

fun setPoolStatusRows :: "(hash \<times> TicketPoolStatus) list \<Rightarrow> ticket_row list \<Rightarrow> ticket_row list \<times> int" where
  "setPoolStatusRows [] t = (t, 0)"
| "setPoolStatusRows ((h, ps) # rest) t =
     (case update_where (\<lambda>r. tk_tx_hash r = h) (\<lambda>r. r\<lparr>tk_pool_status := ps\<rparr>) t of
        (t1, n1) \<Rightarrow> (case setPoolStatusRows rest t1 of (t2, n2) \<Rightarrow> (t2, n1 + n2)))"

definition SetPoolStatusForTicketsByHash ::
  "sqlDB \<Rightarrow> hash list \<Rightarrow> TicketPoolStatus list \<Rightarrow> sqlDB \<times> int \<times> error option" where
  "SetPoolStatusForTicketsByHash d tickets poolStatuses =
     (if fails d OpSetPoolStatusForTicketsByHash
      then (d, 0, Some (ErrStorage OpSetPoolStatusForTicketsByHash))
      else (case setPoolStatusRows (zip tickets poolStatuses) (db_tickets d) of
              (t, n) \<Rightarrow> (d\<lparr>db_tickets := t\<rparr>, n, None)))"

text \<open>
  Modelled from the spec: \<open>SetSpendingForFundingOP\<close> resolves the spending side of one
  input against the funding rows of the outpoint it spends: the matching transaction hash
  of each funding row is set, and the spending event is recorded as a row of its own
  (duplicate-safe) with the given validity; the funding rows touched are counted.
\<close>

definition SetSpendingForFundingOP ::
  "sqlDB \<Rightarrow> hash \<Rightarrow> nat \<Rightarrow> tree \<Rightarrow> hash \<Rightarrow> nat \<Rightarrow> int \<Rightarrow> rowid \<Rightarrow> bool \<Rightarrow> bool \<Rightarrow> txtype
     \<Rightarrow> sqlDB \<times> int \<times> error option" where
  "SetSpendingForFundingOP d fundingTxHash fundingTxVoutIndex fundingTxTree spendingTxHash
       spendingTxVinIndex blockTime vinDbID checked validMainchain txType =
     (if fails d OpSetSpendingForFundingOP then (d, 0, Some (ErrStorage OpSetSpendingForFundingOP))
      else (let isFund = (\<lambda>a. ar_IsFunding a \<and> ar_TxHash a = fundingTxHash
                                \<and> ar_TxVinVoutIndex a = fundingTxVoutIndex);
                spending = map (\<lambda>a. \<lparr>ar_Address = ar_Address a, ar_TxHash = spendingTxHash,
                                      ar_TxVinVoutIndex = spendingTxVinIndex,
                                      ar_VinVoutDbID = vinDbID, ar_Value = ar_Value a,
                                      ar_TxBlockTime = blockTime, ar_IsFunding = False,
                                      ar_ValidMainChain = validMainchain,
                                      ar_MatchingTxHash = fundingTxHash\<rparr>)
                             (filter isFund (db_addresses d))
            in case update_where isFund (\<lambda>a. a\<lparr>ar_MatchingTxHash := spendingTxHash\<rparr>)
                      (db_addresses d) of
                 (t1, n) \<Rightarrow>
                   (case insert_rows checked address_key spending t1 of
                      (t2, ids) \<Rightarrow> (d\<lparr>db_addresses := t2\<rparr>, n, None))))"

definition UpdateLastBlockValid :: "sqlDB \<Rightarrow> rowid \<Rightarrow> bool \<Rightarrow> sqlDB \<times> error option" where
  "UpdateLastBlockValid d blockDbID isValid =
     (if fails d OpUpdateLastBlockValid then (d, Some (ErrStorage OpUpdateLastBlockValid))
      else (case update_id blockDbID (\<lambda>b. b\<lparr>bl_is_valid := isValid\<rparr>) (db_blocks d) of
              (t, n) \<Rightarrow> (d\<lparr>db_blocks := t\<rparr>, None)))"

definition UpdateBlockNext :: "sqlDB \<Rightarrow> rowid \<Rightarrow> hash \<Rightarrow> sqlDB \<times> error option" where
  "UpdateBlockNext d blockDbID nxt =
     (if fails d OpUpdateBlockNext then (d, Some (ErrStorage OpUpdateBlockNext))
      else (case update_where (\<lambda>c. bc_block_db_id c = blockDbID) (\<lambda>c. c\<lparr>bc_next_hash := nxt\<rparr>)
                   (db_block_chain d) of
              (t, n) \<Rightarrow> (d\<lparr>db_block_chain := t\<rparr>, None)))"

text \<open>
  Modelled from the spec: the validity cascade acts on the parent's own inputs,
  transactions and address rows, and stake-tree rows are exempt from it; the source
  calls these the last block's ``regular transactions''.
\<close>

definition regularTxIDs :: "sqlDB \<Rightarrow> hash \<Rightarrow> hash list" where
  "regularTxIDs d blockHash = map tx_TxID (blockTxns d blockHash True)"

definition UpdateLastVins :: "sqlDB \<Rightarrow> hash \<Rightarrow> bool \<Rightarrow> bool \<Rightarrow> sqlDB \<times> error option" where
  "UpdateLastVins d blockHash isValid isMainchain =
     (if fails d OpUpdateLastVins then (d, Some (ErrStorage OpUpdateLastVins))
      else (case update_where (\<lambda>v. vi_TxID v \<in> set (regularTxIDs d blockHash))
                   (\<lambda>v. v\<lparr>vi_IsValid := isValid, vi_IsMainchain := isMainchain\<rparr>) (db_vins d) of
              (t, n) \<Rightarrow> (d\<lparr>db_vins := t\<rparr>, None)))"

definition UpdateTransactionsValid :: "sqlDB \<Rightarrow> hash \<Rightarrow> bool \<Rightarrow> sqlDB \<times> int \<times> rowid list \<times> error option" where
  "UpdateTransactionsValid d blockHash isValid =
     (if fails d OpUpdateTransactionsValid
      then (d, 0, [], Some (ErrStorage OpUpdateTransactionsValid))
      else (let P = (\<lambda>t. tx_BlockHash t = blockHash \<and> tx_Tree t = TxTreeRegular)
            in case update_where P (\<lambda>t. t\<lparr>tx_IsValidBlock := isValid\<rparr>) (db_transactions d) of
                 (t, n) \<Rightarrow>
                   (d\<lparr>db_transactions := t\<rparr>, n,
                    map (\<lambda>i. Suc i) (filter (\<lambda>i. P (db_transactions d ! i))
                                        [0..<length (db_transactions d)]), None)))"

definition UpdateLastAddressesValid :: "sqlDB \<Rightarrow> hash \<Rightarrow> bool \<Rightarrow> sqlDB \<times> error option" where
  "UpdateLastAddressesValid d blockHash isValid =
     (if fails d OpUpdateLastAddressesValid then (d, Some (ErrStorage OpUpdateLastAddressesValid))
      else (case update_where (\<lambda>a. ar_TxHash a \<in> set (regularTxIDs d blockHash))
                   (\<lambda>a. a\<lparr>ar_ValidMainChain := isValid\<rparr>) (db_addresses d) of
              (t, n) \<Rightarrow> (d\<lparr>db_addresses := t\<rparr>, None)))"

text \<open>
  Modelled from the spec: the flag flips of the Reorg Handler. \<open>SetMainchainByBlockHash\<close>
  marks the block and returns the hash of its previous block; when it fails, the hash
  returned is the empty string, the zero value.
\<close>

definition SetMainchainByBlockHash :: "sqlDB \<Rightarrow> hash \<Rightarrow> bool \<Rightarrow> sqlDB \<times> hash \<times> error option" where
  "SetMainchainByBlockHash d blockHash isMainchain =
     (if fails d OpSetMainchainByBlockHash then (d, [], Some (ErrStorage OpSetMainchainByBlockHash))
      else (case find_row (\<lambda>b. block_key b = blockHash) (db_blocks d) of
              None \<Rightarrow> (d, [], Some ErrNoRows)
            | Some b \<Rightarrow>
                (case update_where (\<lambda>b. block_key b = blockHash)
                        (\<lambda>b. b\<lparr>bl_is_mainchain := isMainchain\<rparr>) (db_blocks d) of
                   (t, n) \<Rightarrow> (d\<lparr>db_blocks := t\<rparr>, bk_PreviousHash (bl_block b), None))))"

definition UpdateTransactionsMainchain ::
  "sqlDB \<Rightarrow> hash \<Rightarrow> bool \<Rightarrow> sqlDB \<times> int \<times> rowid list \<times> error option" where
  "UpdateTransactionsMainchain d blockHash isMainchain =
     (if fails d OpUpdateTransactionsMainchain
      then (d, 0, [], Some (ErrStorage OpUpdateTransactionsMainchain))
      else (let P = (\<lambda>t. tx_BlockHash t = blockHash)
            in case update_where P (\<lambda>t. t\<lparr>tx_IsMainchainBlock := isMainchain\<rparr>)
                      (db_transactions d) of
                 (t, n) \<Rightarrow>
                   (d\<lparr>db_transactions := t\<rparr>, n,
                    map (\<lambda>i. Suc i) (filter (\<lambda>i. P (db_transactions d ! i))
                                        [0..<length (db_transactions d)]), None)))"

text \<open>The statement \<open>internal.SetIsMainchainByVinID\<close> run by \<open>db.Exec\<close>, with the result's
  \<open>RowsAffected()\<close> and its error.\<close>

definition ExecSetIsMainchainByVinID ::
  "sqlDB \<Rightarrow> rowid \<Rightarrow> bool \<Rightarrow> sqlDB \<times> (int \<times> error option) \<times> error option" where
  "ExecSetIsMainchainByVinID d vinDbID isMainchain =
     (if fails d OpSetIsMainchainByVinID
      then (d, (0, None), Some (ErrStorage OpSetIsMainchainByVinID))
      else (case update_id vinDbID (\<lambda>v. v\<lparr>vi_IsMainchain := isMainchain\<rparr>) (db_vins d) of
              (t, n) \<Rightarrow>
                (d\<lparr>db_vins := t\<rparr>,
                 (if fails d OpRowsAffected then (0, Some (ErrStorage OpRowsAffected)) else (n, None)),
                 None)))"

definition UpdateAddressesMainchainByIDs ::
  "sqlDB \<Rightarrow> rowid list list \<Rightarrow> rowid list list \<Rightarrow> bool \<Rightarrow> sqlDB \<times> int \<times> int \<times> error option" where
  "UpdateAddressesMainchainByIDs d vinsBlk voutsBlk isValidMainchain =
     (if fails d OpUpdateAddressesMainchainByIDs
      then (d, 0, 0, Some (ErrStorage OpUpdateAddressesMainchainByIDs))
      else (case update_where (\<lambda>a. \<not> ar_IsFunding a \<and> ar_VinVoutDbID a \<in> set (concat vinsBlk))
                   (\<lambda>a. a\<lparr>ar_ValidMainChain := isValidMainchain\<rparr>) (db_addresses d) of
              (t1, ns) \<Rightarrow>
                (case update_where (\<lambda>a. ar_IsFunding a \<and> ar_VinVoutDbID a \<in> set (concat voutsBlk))
                        (\<lambda>a. a\<lparr>ar_ValidMainChain := isValidMainchain\<rparr>) t1 of
                   (t2, nf) \<Rightarrow> (d\<lparr>db_addresses := t2\<rparr>, ns, nf, None))))"

definition UpdateVotesMainchain :: "sqlDB \<Rightarrow> hash \<Rightarrow> bool \<Rightarrow> sqlDB \<times> int \<times> error option" where
  "UpdateVotesMainchain d blockHash isMainchain =
     (if fails d OpUpdateVotesMainchain then (d, 0, Some (ErrStorage OpUpdateVotesMainchain))
      else (case update_where (\<lambda>v. vt_block_hash v = blockHash)
                   (\<lambda>v. v\<lparr>vt_is_mainchain := isMainchain\<rparr>) (db_votes d) of
              (t, n) \<Rightarrow> (d\<lparr>db_votes := t\<rparr>, n, None)))"

definition UpdateTicketsMainchain :: "sqlDB \<Rightarrow> hash \<Rightarrow> bool \<Rightarrow> sqlDB \<times> int \<times> error option" where
  "UpdateTicketsMainchain d blockHash isMainchain =
     (if fails d OpUpdateTicketsMainchain then (d, 0, Some (ErrStorage OpUpdateTicketsMainchain))
      else (case update_where (\<lambda>t. tk_block_hash t = blockHash)
                   (\<lambda>t. t\<lparr>tk_is_mainchain := isMainchain\<rparr>) (db_tickets d) of
              (t, n) \<Rightarrow> (d\<lparr>db_tickets := t\<rparr>, n, None)))"

section \<open>The ticket-ID cache\<close>

text \<open>
  The operations of \<open>TicketTxnIDGetter\<close>. The receiver is a pointer that may be nil, so
  it is an option. The getter's \<open>db\<close> field is the handle of the store that the owning
  \<open>ChainDB\<close> uses (\<open>NewChainDB\<close>); the store is passed to \<open>TxnDbID\<close> explicitly.
\<close>

definition TxnDbID ::
  "TicketTxnIDGetter option \<Rightarrow> sqlDB \<Rightarrow> hash \<Rightarrow> bool
     \<Rightarrow> TicketTxnIDGetter option \<times> rowid \<times> error option" where
  "TxnDbID t d txid expire =
     (case t of
        None \<Rightarrow> (None, 0, Some (Panic ''uninitialized TicketTxnIDGetter''))
      | Some c \<Rightarrow>
          (case idCache c txid of
             Some dbID \<Rightarrow>
               (if expire then Some (c\<lparr>idCache := (idCache c)(txid := None)\<rparr>) else Some c,
                dbID, None)
           | None \<Rightarrow> (case RetrieveTicketIDByHash d txid of (i, e) \<Rightarrow> (Some c, i, e))))"

definition Set :: "TicketTxnIDGetter option \<Rightarrow> hash \<Rightarrow> rowid \<Rightarrow> TicketTxnIDGetter option" where
  "Set t txid txDbID =
     (case t of
        None \<Rightarrow> None
      | Some c \<Rightarrow> Some (c\<lparr>idCache := (idCache c)(txid \<mapsto> txDbID)\<rparr>))"

text \<open>\<open>SetN\<close> indexes the identifiers by the positions of the hashes: with fewer
  identifiers than hashes the read is out of range and panics, after the earlier pairs
  were stored.\<close>

fun SetN_loop :: "(hash \<rightharpoonup> rowid) \<Rightarrow> hash list \<Rightarrow> rowid list \<Rightarrow> (hash \<rightharpoonup> rowid) \<times> error option" where
  "SetN_loop m [] ids = (m, None)"
| "SetN_loop m (h # hs) [] = (m, Some (Panic ''index out of range''))"
| "SetN_loop m (h # hs) (i # ids) = SetN_loop (m(h \<mapsto> i)) hs ids"

definition SetN ::
  "TicketTxnIDGetter option \<Rightarrow> hash list \<Rightarrow> rowid list \<Rightarrow> TicketTxnIDGetter option \<times> error option" where
  "SetN t txid txDbID =
     (case t of
        None \<Rightarrow> (None, None)
      | Some c \<Rightarrow> (case SetN_loop (idCache c) txid txDbID of
                     (m, e) \<Rightarrow> (Some (c\<lparr>idCache := m\<rparr>), e)))"

section \<open>The chain state facade\<close>

text \<open>
  The stake-tracking collaborator, as the ingestor consults it: \<open>PoolInfo\<close> gives the
  winners recorded for a block hash if it is found, and the best node answers
  \<open>ExistsExpiredTicket\<close> and \<open>MissedByBlock\<close>. Locking the stake node has no sequential
  content.
\<close>

record StakeDatabase =
  PoolInfo :: "hash \<Rightarrow> string list option"
  ExistsExpiredTicket :: "hash \<Rightarrow> bool"
  MissedByBlock :: "hash list"

record addressCounter =
  validHeight :: int
  balance :: "string \<rightharpoonup> int"

record ChainDB =
  db :: sqlDB
  dupChecks :: bool
  bestBlock :: int
  bestBlockHash :: string
  lastBlock :: "hash \<rightharpoonup> rowid"
  addressCounts :: addressCounter
  stakeDB :: StakeDatabase
  unspentTicketCache :: "TicketTxnIDGetter option"
  devPrefetch :: bool
  InBatchSync :: bool
  InReorg :: bool

text \<open>\<open>Height\<close> converts the stored \<open>int64\<close> to \<open>uint64\<close>.\<close>

definition Height :: "ChainDB \<Rightarrow> nat" where
  "Height pgb = nat (bestBlock pgb mod 2 ^ 64)"

definition HashStr :: "ChainDB \<Rightarrow> string" where
  "HashStr pgb = bestBlockHash pgb"

definition BlockStatus :: "ChainDB \<Rightarrow> hash \<Rightarrow> BlockStatus \<times> error option" where
  "BlockStatus pgb h = RetrieveBlockStatus (db pgb) h"

definition BlockHeight :: "ChainDB \<Rightarrow> hash \<Rightarrow> int \<times> error option" where
  "BlockHeight pgb h = RetrieveBlockHeight (db pgb) h"

section \<open>The record extractor\<close>

text \<open>
  Modelled from the spec: \<open>dbtypes.MsgBlockToDBBlock\<close> and
  \<open>dbtypes.ExtractBlockTransactions\<close> (the Record Extractor), whose code is not part of
  the sources at hand. The extractor is a pure function from one transaction tree of a
  block to parallel lists of transaction, output and input rows, stamped with the given
  validity and mainchain flags; identifiers of stored rows are not yet resolved.
\<close>

definition MsgBlockToDBBlock :: "MsgBlock \<Rightarrow> Block" where
  "MsgBlockToDBBlock msgBlock =
     \<lparr>bk_Hash = mb_BlockHash msgBlock, bk_Height = mb_Height msgBlock,
      bk_PreviousHash = mb_PrevBlock msgBlock, bk_VoteBits = mb_VoteBits msgBlock,
      bk_TxDbIDs = [], bk_STxDbIDs = []\<rparr>"

fun mapi :: "nat \<Rightarrow> (nat \<Rightarrow> 'a \<Rightarrow> 'b) \<Rightarrow> 'a list \<Rightarrow> 'b list" where
  "mapi n f [] = []"
| "mapi n f (x # xs) = f n x # mapi (Suc n) f xs"

definition treeTxns :: "MsgBlock \<Rightarrow> tree \<Rightarrow> MsgTx list" where
  "treeTxns msgBlock txTree =
     (case txTree of TxTreeRegular \<Rightarrow> mb_Transactions msgBlock
                   | TxTreeStake \<Rightarrow> mb_STransactions msgBlock)"

definition extractTx :: "MsgBlock \<Rightarrow> tree \<Rightarrow> bool \<Rightarrow> bool \<Rightarrow> MsgTx \<Rightarrow> Tx" where
  "extractTx msgBlock txTree isValid isMainchain mtx =
     \<lparr>tx_BlockHash = mb_BlockHash msgBlock, tx_BlockTime = mb_Time msgBlock,
      tx_TxType = mt_Type mtx, tx_Tree = txTree, tx_TxID = mt_TxHash mtx, tx_Vouts = [],
      tx_VinDbIds = [], tx_VoutDbIds = [], tx_IsValidBlock = isValid,
      tx_IsMainchainBlock = isMainchain\<rparr>"

definition extractVouts :: "tree \<Rightarrow> MsgTx \<Rightarrow> Vout list" where
  "extractVouts txTree mtx =
     mapi 0 (\<lambda>i (v, addrs). \<lparr>vo_TxHash = mt_TxHash mtx, vo_TxIndex = i, vo_TxTree = txTree,
                              vo_Value = v, vo_Addresses = addrs\<rparr>) (mt_TxOut mtx)"

definition extractVins :: "tree \<Rightarrow> bool \<Rightarrow> bool \<Rightarrow> MsgTx \<Rightarrow> VinTxProperty list" where
  "extractVins txTree isValid isMainchain mtx =
     mapi 0 (\<lambda>i prev. \<lparr>vi_TxID = mt_TxHash mtx, vi_TxIndex = i, vi_TxTree = txTree,
                        vi_TxType = mt_Type mtx, vi_PrevTxHash = op_Hash prev,
                        vi_PrevTxIndex = op_Index prev, vi_PrevTxTree = op_Tree prev,
                        vi_IsValid = isValid, vi_IsMainchain = isMainchain\<rparr>) (mt_TxIn mtx)"

definition ExtractBlockTransactions ::
  "MsgBlock \<Rightarrow> tree \<Rightarrow> bool \<Rightarrow> bool \<Rightarrow> Tx list \<times> Vout list list \<times> VinTxProperty list list" where
  "ExtractBlockTransactions msgBlock txTree isValid isMainchain =
     (let txs = treeTxns msgBlock txTree
      in (map (extractTx msgBlock txTree isValid isMainchain) txs,
          map (extractVouts txTree) txs,
          map (extractVins txTree isValid isMainchain) txs))"

section \<open>Ticket spend bookkeeping\<close>

text \<open>
  \<open>chainhash.NewHashFromStr\<close> of the dcrd library: a string of more than 64 characters or
  with a character that is no hexadecimal digit is refused; a shorter string stands for
  the hash with leading zeros, printed in lower case.
\<close>

definition isHexDigit :: "char \<Rightarrow> bool" where
  "isHexDigit c = (c \<in> set ''0123456789abcdefABCDEF'')"

definition lowerHex :: "char \<Rightarrow> char" where
  "lowerHex c =
     (if c = CHR ''A'' then CHR ''a'' else if c = CHR ''B'' then CHR ''b''
      else if c = CHR ''C'' then CHR ''c'' else if c = CHR ''D'' then CHR ''d''
      else if c = CHR ''E'' then CHR ''e'' else if c = CHR ''F'' then CHR ''f'' else c)"

definition NewHashFromStr :: "string \<Rightarrow> hash \<times> error option" where
  "NewHashFromStr s =
     (if 64 < length s \<or> \<not> list_all isHexDigit s then ([], Some ErrHashStr)
      else (replicate (64 - length s) (CHR ''0'') @ map lowerHex s, None))"

text \<open>
  \<open>CollectTicketSpendDBInfo\<close>. The loop runs over the stake transactions by index; the
  three slices it indexes are consumed together, and the four result slices are the
  accumulator. \<open>collectEntry\<close> is the body of the loop for one transaction: its error, if
  any, ends the function. A panic of \<open>TxnDbID\<close> is not an error value and passes through
  unwrapped.
\<close>

type_synonym spendInfo = "rowid list \<times> TicketSpendType list \<times> hash list \<times> rowid list"

definition spendKind :: "Tx \<Rightarrow> (TicketSpendType \<times> nat) option" where
  "spendKind tx =
     (case tx_TxType tx of
        TxTypeSSGen \<Rightarrow> Some (TicketVoted, 1)
      | TxTypeSSRtx \<Rightarrow> Some (TicketRevoked, 0)
      | _ \<Rightarrow> None)"

definition collectEntry ::
  "sqlDB \<Rightarrow> TicketTxnIDGetter option \<Rightarrow> Tx \<Rightarrow> MsgTx \<Rightarrow> rowid list \<Rightarrow> spendInfo
     \<Rightarrow> TicketTxnIDGetter option \<times> spendInfo \<times> error option" where
  "collectEntry d c tx msgTx txDbIDs acc =
     (case acc of
        (spendingTxDbIDs, spendTypes, ticketHashes, ticketDbIDs) \<Rightarrow>
          if tx_TxID tx \<noteq> mt_TxHash msgTx then (c, acc, Some ErrTxidMismatch)
          else
            (case spendKind tx of
               None \<Rightarrow> (c, acc, None)
             | Some (spendType, stakeSubmissionVinInd) \<Rightarrow>
                 if stakeSubmissionVinInd \<ge> length (mt_TxIn msgTx) then (c, acc, None)
                 else
                   (case txDbIDs of
                      [] \<Rightarrow> (c, (spendingTxDbIDs, spendTypes @ [spendType], ticketHashes, ticketDbIDs),
                             Some (Panic ''index out of range''))
                    | txDbID # _ \<Rightarrow>
                        (let ticketHash = op_Hash (mt_TxIn msgTx ! stakeSubmissionVinInd)
                         in case TxnDbID c d ticketHash True of
                              (c', t, err0) \<Rightarrow>
                                (case err0 of
                                   Some (Panic m) \<Rightarrow>
                                     (c', (spendingTxDbIDs @ [txDbID], spendTypes @ [spendType],
                                           ticketHashes @ [ticketHash], ticketDbIDs),
                                      Some (Panic m))
                                 | Some e \<Rightarrow>
                                     (c', (spendingTxDbIDs @ [txDbID], spendTypes @ [spendType],
                                           ticketHashes @ [ticketHash], ticketDbIDs),
                                      Some (ErrTicketDbID ticketHash e))
                                 | None \<Rightarrow>
                                     (c', (spendingTxDbIDs @ [txDbID], spendTypes @ [spendType],
                                           ticketHashes @ [ticketHash], ticketDbIDs @ [t]),
                                      None))))))"

fun collectLoop ::
  "sqlDB \<Rightarrow> TicketTxnIDGetter option \<Rightarrow> Tx list \<Rightarrow> MsgTx list \<Rightarrow> rowid list \<Rightarrow> spendInfo
     \<Rightarrow> TicketTxnIDGetter option \<times> spendInfo \<times> error option" where
  "collectLoop d c [] msgTxns txDbIDs acc = (c, acc, None)"
| "collectLoop d c (tx # txs) [] txDbIDs acc = (c, acc, Some (Panic ''index out of range''))"
| "collectLoop d c (tx # txs) (msgTx # msgTxns) txDbIDs acc =
     (case collectEntry d c tx msgTx txDbIDs acc of
        (c', acc', e) \<Rightarrow>
          if e \<noteq> None then (c', acc', e)
          else collectLoop d c' txs msgTxns (drop 1 txDbIDs) acc')"

definition CollectTicketSpendDBInfo ::
  "ChainDB \<Rightarrow> Tx list \<Rightarrow> rowid list \<Rightarrow> MsgBlock \<Rightarrow> ChainDB \<times> spendInfo \<times> error option" where
  "CollectTicketSpendDBInfo pgb dbTxns txDbIDs msgBlock =
     (let msgTxns = mb_STransactions msgBlock
      in if length msgTxns \<noteq> length dbTxns
         then (pgb, ([], [], [], []), Some (ErrStakeTxCount (length msgTxns) (length dbTxns)))
         else (case collectLoop (db pgb) (unspentTicketCache pgb) dbTxns msgTxns txDbIDs
                      ([], [], [], []) of
                 (c, info, e) \<Rightarrow> (pgb\<lparr>unspentTicketCache := c\<rparr>, info, e)))"

section \<open>The block ingestor\<close>

subsection \<open>\<open>storeTxns\<close>\<close>

record storeTxnsResult =
  numVins :: int
  numVouts :: int
  numAddresses :: int
  err :: "error option"

text \<open>An error that is neither nil nor \<open>sql.ErrNoRows\<close>.\<close>

definition fatal :: "error option \<Rightarrow> bool" where
  "fatal e = (e \<noteq> None \<and> e \<noteq> Some ErrNoRows)"

text \<open>
  The first loop of \<open>storeTxns\<close>: for each transaction its outputs are inserted, then its
  inputs, and the identifiers are stored in the transaction. The loop returns the
  transactions so updated and the address rows of each; an error ends it with the counts
  reached so far.
\<close>

fun insertVoutsVins ::
  "bool \<Rightarrow> tree \<Rightarrow> (Tx \<times> Vout list \<times> VinTxProperty list) list \<Rightarrow> sqlDB \<Rightarrow> storeTxnsResult
     \<Rightarrow> sqlDB \<times> Tx list \<times> AddressRow list list \<times> storeTxnsResult" where
  "insertVoutsVins chk txTree [] d txRes = (d, [], [], txRes)"
| "insertVoutsVins chk txTree ((dbtx, vouts, vins) # rest) d txRes =
     (case InsertVouts d vouts chk of
        (d1, voutDbIds, addressRows, e1) \<Rightarrow>
          if fatal e1 then (d1, [], [], txRes\<lparr>err := e1\<rparr>)
          else
            (let txRes1 = txRes\<lparr>numVouts := numVouts txRes + int (length voutDbIds)\<rparr>
             in case InsertVins d1 vins chk of
                  (d2, vinDbIds, e2) \<Rightarrow>
                    if fatal e2 then (d2, [], [], txRes1\<lparr>err := e2\<rparr>)
                    else
                      (let txRes2 = txRes1\<lparr>numVins := numVins txRes1 + int (length vinDbIds)\<rparr>;
                           dbtx' = dbtx\<lparr>tx_VoutDbIds := voutDbIds, tx_VinDbIds := vinDbIds,
                                        tx_Vouts := (if txTree = TxTreeStake then vouts
                                                     else tx_Vouts dbtx)\<rparr>
                       in case insertVoutsVins chk txTree rest d2 txRes2 of
                            (d3, txs, rows, txRes3) \<Rightarrow>
                              (d3, dbtx' # txs, addressRows # rows, txRes3))))"

text \<open>The classification of the ticket spends: a vote is \<open>voted\<close>; a revocation is
  \<open>expired\<close> if the stake node knows the ticket as expired and \<open>missed\<close> if not, and
  keeps the zero value when the hash string does not parse.\<close>

definition spendPoolStatus :: "StakeDatabase \<Rightarrow> TicketSpendType \<Rightarrow> hash \<Rightarrow> TicketPoolStatus" where
  "spendPoolStatus sdb spendType ticketHash =
     (case spendType of
        TicketVoted \<Rightarrow> PoolStatusVoted
      | TicketRevoked \<Rightarrow>
          (case NewHashFromStr ticketHash of
             (h, Some err0) \<Rightarrow> PoolStatusLive
           | (h, None) \<Rightarrow>
               (if \<not> ExistsExpiredTicket sdb h then PoolStatusMissed else PoolStatusExpired))
      | TicketUnspent \<Rightarrow> PoolStatusLive)"

fun classifySpends ::
  "StakeDatabase \<Rightarrow> (hash \<times> TicketSpendType \<times> rowid) list \<Rightarrow> (hash \<rightharpoonup> rowid)
     \<Rightarrow> (hash \<rightharpoonup> rowid) \<times> TicketPoolStatus list" where
  "classifySpends sdb [] revokes = (revokes, [])"
| "classifySpends sdb ((ticketHash, spendType, ticketDbID) # rest) revokes =
     (case classifySpends sdb rest
             (if spendType = TicketRevoked then revokes(ticketHash \<mapsto> ticketDbID) else revokes) of
        (revokes', poolStatuses) \<Rightarrow>
          (revokes', spendPoolStatus sdb spendType ticketHash # poolStatuses))"

text \<open>The unspent tickets that are missed or expired: the misses that this block does
  not revoke, then the expired tickets of \<open>MissedByBlock\<close> that are neither among those
  misses nor revoked in this block.\<close>

definition unspentExpiresAndMisses ::
  "StakeDatabase \<Rightarrow> (hash \<times> rowid) list \<Rightarrow> (hash \<rightharpoonup> rowid) \<Rightarrow> hash list \<times> TicketPoolStatus list" where
  "unspentExpiresAndMisses sdb missesHashIDs revokes =
     (let unspentMissedTicketHashes = filter (\<lambda>miss. revokes miss = None) (map fst missesHashIDs);
          expires = filter (\<lambda>emHash. ExistsExpiredTicket sdb emHash
                                     \<and> emHash \<notin> set unspentMissedTicketHashes
                                     \<and> revokes emHash = None) (MissedByBlock sdb)
      in (unspentMissedTicketHashes @ expires,
          replicate (length unspentMissedTicketHashes) PoolStatusMissed
            @ replicate (length expires) PoolStatusExpired))"

text \<open>
  The update of the spending information of the tickets in \<open>storeTxns\<close>, entered when
  \<open>updateTicketsSpendingInfo\<close> is set: the spends are collected and classified, the
  tickets spent are updated, and the unspent tickets that are missed or expired get their
  pool status. An error of \<open>CollectTicketSpendDBInfo\<close> ends \<open>storeTxns\<close>; the errors of
  the two updates are logged only.
\<close>

definition updateTicketSpends ::
  "ChainDB \<Rightarrow> MsgBlockPG \<Rightarrow> Tx list \<Rightarrow> rowid list \<Rightarrow> (hash \<times> rowid) list
     \<Rightarrow> ChainDB \<times> error option" where
  "updateTicketSpends pgb msgBlock dbTransactions TxDbIDs missesHashIDs =
     (case CollectTicketSpendDBInfo pgb dbTransactions TxDbIDs (pg_MsgBlock msgBlock) of
        (pgb2, (spendingTxDbIDs, spendTypes, spentTicketHashes, ticketDbIDs), e3) \<Rightarrow>
          if e3 \<noteq> None then (pgb2, e3)
          else
            (case classifySpends (stakeDB pgb2)
                    (zip spentTicketHashes (zip spendTypes ticketDbIDs)) Map.empty of
               (revokes, poolStatuses) \<Rightarrow>
                 (case SetSpendingForTickets (db pgb2) ticketDbIDs spendingTxDbIDs
                         (replicate (length spentTicketHashes)
                            (int (mb_Height (pg_MsgBlock msgBlock))))
                         spendTypes poolStatuses of
                    (d3, n3, e4) \<Rightarrow>
                      (case unspentExpiresAndMisses (stakeDB pgb2) missesHashIDs revokes of
                         (unspentEnM, missStatuses) \<Rightarrow>
                           (case SetPoolStatusForTicketsByHash d3 unspentEnM missStatuses of
                              (d4, numUnrevokedMisses, e5) \<Rightarrow> (pgb2\<lparr>db := d4\<rparr>, None))))))"

text \<open>The stake-tree part of \<open>storeTxns\<close>: tickets, votes and misses, and the spending
  information of the tickets. The result is the error that ends \<open>storeTxns\<close>, if any.\<close>

definition storeStakeInfo ::
  "ChainDB \<Rightarrow> MsgBlockPG \<Rightarrow> Tx list \<Rightarrow> rowid list \<Rightarrow> bool \<Rightarrow> ChainDB \<times> error option" where
  "storeStakeInfo pgb msgBlock dbTransactions TxDbIDs updateTicketsSpendingInfo =
     (case InsertTickets (db pgb) dbTransactions TxDbIDs (dupChecks pgb) of
        (d1, newTicketDbIDs, newTicketTx, e1) \<Rightarrow>
          if fatal e1 then (pgb\<lparr>db := d1\<rparr>, e1)
          else
            (let pgb1 = (if updateTicketsSpendingInfo
                         then pgb\<lparr>db := d1,
                                  unspentTicketCache :=
                                    fold (\<lambda>(tdbid, tx) c. Set c (tx_TxID tx) tdbid)
                                      (zip newTicketDbIDs newTicketTx) (unspentTicketCache pgb)\<rparr>
                         else pgb\<lparr>db := d1\<rparr>);
                 unspentTicketCache' = (if updateTicketsSpendingInfo then unspentTicketCache pgb1
                                        else None)
             in case InsertVotes (db pgb1) dbTransactions TxDbIDs unspentTicketCache' msgBlock
                       (dupChecks pgb1) of
                  (d2, missesHashIDs, e2) \<Rightarrow>
                    if fatal e2 then (pgb1\<lparr>db := d2\<rparr>, e2)
                    else if \<not> updateTicketsSpendingInfo then (pgb1\<lparr>db := d2\<rparr>, None)
                    else updateTicketSpends (pgb1\<lparr>db := d2\<rparr>) msgBlock dbTransactions TxDbIDs
                           missesHashIDs))"

text \<open>The spending side of the address rows: every input that is no coinbase input is
  matched against the funding rows of its previous outpoint; a failure is logged and the
  loop goes on.\<close>

fun spendVins ::
  "bool \<Rightarrow> Tx \<Rightarrow> VinTxProperty list \<Rightarrow> rowid list \<Rightarrow> sqlDB \<Rightarrow> int \<Rightarrow> sqlDB \<times> int \<times> error option" where
  "spendVins chk tx [] vinDbIds d n = (d, n, None)"
| "spendVins chk tx (vin # txVins) vinDbIds d n =
     (if vi_PrevTxHash vin = zeroHash then spendVins chk tx txVins (drop 1 vinDbIds) d n
      else
        (case vinDbIds of
           [] \<Rightarrow> (d, n, Some (Panic ''index out of range''))
         | vinDbID # _ \<Rightarrow>
             (case SetSpendingForFundingOP d (vi_PrevTxHash vin) (vi_PrevTxIndex vin)
                     (vi_PrevTxTree vin) (vi_TxID vin) (vi_TxIndex vin) (tx_BlockTime tx) vinDbID
                     chk (tx_IsValidBlock tx \<and> tx_IsMainchainBlock tx) (vi_TxType vin) of
                (d', numAddressRowsSet, e) \<Rightarrow>
                  spendVins chk tx txVins (drop 1 vinDbIds) d' (n + numAddressRowsSet))))"

fun spendTxns ::
  "bool \<Rightarrow> (Tx \<times> VinTxProperty list) list \<Rightarrow> sqlDB \<Rightarrow> int \<Rightarrow> sqlDB \<times> int \<times> error option" where
  "spendTxns chk [] d n = (d, n, None)"
| "spendTxns chk ((tx, txVins) # rest) d n =
     (case spendVins chk tx txVins (tx_VinDbIds tx) d n of
        (d', n', e) \<Rightarrow> if e \<noteq> None then (d', n', e) else spendTxns chk rest d' n')"

definition fundingAddressRows :: "Tx list \<Rightarrow> AddressRow list list \<Rightarrow> bool \<Rightarrow> bool \<Rightarrow> AddressRow list" where
  "fundingAddressRows dbTransactions dbAddressRows isValid isMainchain =
     concat (map (\<lambda>(tx, rows).
                    map (\<lambda>dba. dba\<lparr>ar_TxBlockTime := tx_BlockTime tx, ar_IsFunding := True,
                                    ar_ValidMainChain := (isMainchain \<and> isValid)\<rparr>) rows)
                 (zip dbTransactions dbAddressRows))"

definition storeTxns ::
  "ChainDB \<Rightarrow> MsgBlockPG \<Rightarrow> tree \<Rightarrow> bool \<Rightarrow> bool \<Rightarrow> bool \<Rightarrow> bool
     \<Rightarrow> ChainDB \<times> rowid list \<times> storeTxnsResult" where
  "storeTxns pgb msgBlock0 txTree isValid isMainchain updateAddressesSpendingInfo
       updateTicketsSpendingInfo =
     (case ExtractBlockTransactions (pg_MsgBlock msgBlock0) txTree isValid isMainchain of
        (dbTransactions0, dbTxVouts, dbTxVins) \<Rightarrow>
          (let msgBlock = (if \<not> isMainchain then msgBlock0\<lparr>pg_Validators := []\<rparr> else msgBlock0)
           in case insertVoutsVins (dupChecks pgb) txTree
                     (zip dbTransactions0 (zip dbTxVouts dbTxVins)) (db pgb)
                     \<lparr>numVins = 0, numVouts = 0, numAddresses = 0, err = None\<rparr> of
                (d1, dbTransactions, dbAddressRows, txRes) \<Rightarrow>
                  if err txRes \<noteq> None then (pgb\<lparr>db := d1\<rparr>, [], txRes)
                  else
                    (case InsertTxns d1 dbTransactions (dupChecks pgb) of
                       (d2, TxDbIDs, e2) \<Rightarrow>
                         if fatal e2 then (pgb\<lparr>db := d2\<rparr>, TxDbIDs, txRes\<lparr>err := e2\<rparr>)
                         else
                           (case (if txTree = TxTreeStake
                                  then storeStakeInfo (pgb\<lparr>db := d2\<rparr>) msgBlock dbTransactions
                                         TxDbIDs updateTicketsSpendingInfo
                                  else (pgb\<lparr>db := d2\<rparr>, None)) of
                              (pgb3, e3) \<Rightarrow>
                                if e3 \<noteq> None then (pgb3, TxDbIDs, txRes\<lparr>err := e3\<rparr>)
                                else
                                  (case InsertAddressRows (db pgb3)
                                          (fundingAddressRows dbTransactions dbAddressRows isValid
                                             isMainchain) (dupChecks pgb3) of
                                     (d4, ids, e4) \<Rightarrow>
                                       if e4 \<noteq> None then (pgb3\<lparr>db := d4\<rparr>, TxDbIDs, txRes\<lparr>err := e4\<rparr>)
                                       else if \<not> updateAddressesSpendingInfo
                                       then (pgb3\<lparr>db := d4\<rparr>, TxDbIDs, txRes)
                                       else
                                         (case spendTxns (dupChecks pgb3)
                                                 (zip dbTransactions dbTxVins) d4 0 of
                                            (d5, n, e5) \<Rightarrow>
                                              (pgb3\<lparr>db := d5\<rparr>, TxDbIDs,
                                               txRes\<lparr>numAddresses := n, err := e5\<rparr>)))))))"

subsection \<open>\<open>StoreBlock\<close>\<close>

text \<open>
  The update of the previous block once its row identifier is known: its validity flag,
  its next-block link, and, if this block's votes invalidate it, the flags of its inputs,
  regular transactions and address rows. The results are the new state, the value of the
  named result \<open>err\<close>, and whether \<open>StoreBlock\<close> returns at this point.
\<close>

definition updateLastBlockByID ::
  "ChainDB \<Rightarrow> hash \<Rightarrow> rowid \<Rightarrow> Block \<Rightarrow> bool \<Rightarrow> ChainDB \<times> error option \<times> bool" where
  "updateLastBlockByID pgb lastBlockHash lastBlockDbID dbBlock isMainchain =
     (let lastIsValid = (bk_VoteBits dbBlock AND 1 \<noteq> 0)
      in case (if \<not> lastIsValid then UpdateLastBlockValid (db pgb) lastBlockDbID lastIsValid
               else (db pgb, None)) of
           (d1, e1) \<Rightarrow>
             if e1 \<noteq> None then (pgb\<lparr>db := d1\<rparr>, e1, True)
             else
               (case UpdateBlockNext d1 lastBlockDbID (bk_Hash dbBlock) of
                  (d2, e2) \<Rightarrow>
                    if e2 \<noteq> None then (pgb\<lparr>db := d2\<rparr>, e2, True)
                    else if lastIsValid then (pgb\<lparr>db := d2\<rparr>, e2, False)
                    else
                      (case UpdateLastVins d2 lastBlockHash lastIsValid isMainchain of
                         (d3, e3) \<Rightarrow>
                           if e3 \<noteq> None then (pgb\<lparr>db := d3\<rparr>, e3, True)
                           else
                             (case UpdateTransactionsValid d3 lastBlockHash lastIsValid of
                                (d4, n4, ids4, e4) \<Rightarrow>
                                  if e4 \<noteq> None then (pgb\<lparr>db := d4\<rparr>, e4, True)
                                  else
                                    (case UpdateLastAddressesValid d4 lastBlockHash lastIsValid of
                                       (d5, e5) \<Rightarrow>
                                         if e5 \<noteq> None then (pgb\<lparr>db := d5\<rparr>, e5, True)
                                         else (pgb\<lparr>db := d5\<rparr>, e5, False))))))"

text \<open>The block of \<open>StoreBlock\<close> that is entered when the previous block is not the zero
  hash; \<open>err0\<close> is the value of \<open>err\<close> on entry.\<close>

definition updateLastBlock ::
  "ChainDB \<Rightarrow> MsgBlock \<Rightarrow> Block \<Rightarrow> bool \<Rightarrow> error option \<Rightarrow> ChainDB \<times> error option \<times> bool" where
  "updateLastBlock pgb msgBlock dbBlock isMainchain err0 =
     (let lastBlockHash = mb_PrevBlock msgBlock
      in case BlockStatus pgb lastBlockHash of
           (blockStatus, errB) \<Rightarrow>
             if errB \<noteq> None then (pgb, err0, True)
             else if bs_IsMainchain blockStatus \<noteq> isMainchain then (pgb, err0, True)
             else
               (case lastBlock pgb lastBlockHash of
                  Some lastBlockDbID \<Rightarrow>
                    updateLastBlockByID pgb lastBlockHash lastBlockDbID dbBlock isMainchain
                | None \<Rightarrow>
                    (case RetrieveBlockChainDbID (db pgb) lastBlockHash of
                       (lastBlockDbID, e) \<Rightarrow>
                         if e \<noteq> None then (pgb, e, True)
                         else updateLastBlockByID pgb lastBlockHash lastBlockDbID dbBlock
                                isMainchain)))"

text \<open>
  The part of \<open>StoreBlock\<close> after both trees are stored: the block row, the best block of
  the facade, the chain linkage, the update of the previous block, and the invalidation of
  the address-balance cache. The lazy update of the development fund balance runs in a
  goroutine of its own and is outside this model.
\<close>

definition storeBlockRow ::
  "ChainDB \<Rightarrow> MsgBlock \<Rightarrow> Block \<Rightarrow> bool \<Rightarrow> bool \<Rightarrow> int \<Rightarrow> int \<Rightarrow> ChainDB \<times> int \<times> int \<times> error option" where
  "storeBlockRow pgb msgBlock dbBlock isValid isMainchain numVins' numVouts' =
     (case InsertBlock (db pgb) dbBlock isValid isMainchain (dupChecks pgb) of
        (d1, blockDbID, e1) \<Rightarrow>
          if e1 \<noteq> None then (pgb\<lparr>db := d1\<rparr>, numVins', numVouts', e1)
          else
            (let pgb1 = pgb\<lparr>db := d1,
                            lastBlock := (lastBlock pgb)(mb_BlockHash msgBlock \<mapsto> blockDbID),
                            bestBlock := int (bk_Height dbBlock),
                            bestBlockHash := bk_Hash dbBlock\<rparr>
             in case InsertBlockPrevNext (db pgb1) blockDbID (bk_Hash dbBlock)
                       (bk_PreviousHash dbBlock) [] of
                  (d2, e2) \<Rightarrow>
                    if fatal e2 then (pgb1\<lparr>db := d2\<rparr>, numVins', numVouts', e2)
                    else
                      (case (if mb_PrevBlock msgBlock \<noteq> zeroHash
                             then updateLastBlock (pgb1\<lparr>db := d2\<rparr>) msgBlock dbBlock isMainchain e2
                             else (pgb1\<lparr>db := d2\<rparr>, e2, False)) of
                         (pgb3, e3, returned) \<Rightarrow>
                           if returned then (pgb3, numVins', numVouts', e3)
                           else
                             ((if \<not> InBatchSync pgb3
                               then pgb3\<lparr>addressCounts :=
                                           \<lparr>validHeight = int (mb_Height msgBlock),
                                            balance = Map.empty\<rparr>\<rparr>
                               else pgb3),
                              numVins', numVouts', e3))))"

text \<open>
  \<open>StoreBlock\<close>. The two goroutines that store the regular and the stake tree are run
  one after the other, the regular tree first; both run whatever the other returns. A
  panic in either ends the process, and is reported here as the error of that tree.
\<close>

definition StoreBlock ::
  "ChainDB \<Rightarrow> MsgBlock \<Rightarrow> string list \<Rightarrow> bool \<Rightarrow> bool \<Rightarrow> bool \<Rightarrow> bool
     \<Rightarrow> ChainDB \<times> int \<times> int \<times> error option" where
  "StoreBlock pgb msgBlock winningTickets isValid isMainchain updateAddressesSpendingInfo
       updateTicketsSpendingInfo =
     (let dbBlock = MsgBlockToDBBlock msgBlock;
          prevBlockHash = mb_PrevBlock msgBlock
      in case (if isMainchain \<and> prevBlockHash \<noteq> zeroHash
               then PoolInfo (stakeDB pgb) prevBlockHash else Some []) of
           None \<Rightarrow> (pgb, 0, 0, Some (ErrPoolInfo (mb_BlockHash msgBlock)))
         | Some winners \<Rightarrow>
             (let MsgBlockPG = \<lparr>pg_MsgBlock = msgBlock, pg_WinningTickets = winningTickets,
                                pg_Validators = winners\<rparr>
              in case storeTxns pgb MsgBlockPG TxTreeRegular isValid isMainchain
                        updateAddressesSpendingInfo updateTicketsSpendingInfo of
                   (pgb1, TxDbIDs, errReg) \<Rightarrow>
                     (case storeTxns pgb1 MsgBlockPG TxTreeStake isValid isMainchain
                             updateAddressesSpendingInfo updateTicketsSpendingInfo of
                        (pgb2, STxDbIDs, errStk) \<Rightarrow>
                          (case err errStk of
                             Some eStk \<Rightarrow>
                               (case err errReg of
                                  None \<Rightarrow> (pgb2, numVins errReg, numVouts errReg, Some eStk)
                                | Some eReg \<Rightarrow> (pgb2, 0, 0, Some (ErrJoined eReg eStk)))
                           | None \<Rightarrow>
                               (case err errReg of
                                  Some eReg \<Rightarrow> (pgb2, numVins errStk, numVouts errStk, Some eReg)
                                | None \<Rightarrow>
                                    storeBlockRow pgb2 msgBlock
                                      (dbBlock\<lparr>bk_TxDbIDs := TxDbIDs, bk_STxDbIDs := STxDbIDs\<rparr>)
                                      isValid isMainchain
                                      (numVins errStk + numVins errReg)
                                      (numVouts errStk + numVouts errReg))))))"

subsection \<open>The \<open>Store\<close> entry points\<close>

text \<open>Of \<open>blockdata.BlockData\<close> only the winning tickets are read. A nil receiver is
  \<open>None\<close>.\<close>

record BlockData =
  WinningTickets :: "string list"

definition Store :: "ChainDB option \<Rightarrow> BlockData \<Rightarrow> MsgBlock \<Rightarrow> ChainDB option \<times> error option" where
  "Store pgb blockData msgBlock =
     (case pgb of
        None \<Rightarrow> (None, None)
      | Some p \<Rightarrow>
          (case StoreBlock p msgBlock (WinningTickets blockData) True True True True of
             (p', nv, no, e) \<Rightarrow> (Some p', e)))"

text \<open>\<open>ChainDBRPC\<close> embeds a pointer to a \<open>ChainDB\<close>; the RPC client plays no part in the
  operations modelled.\<close>

record ChainDBRPC =
  ChainDB_ptr :: "ChainDB option"

definition Store_RPC ::
  "ChainDBRPC option \<Rightarrow> BlockData \<Rightarrow> MsgBlock \<Rightarrow> ChainDBRPC option \<times> error option" where
  "Store_RPC dbr blockData msgBlock =
     (case dbr of
        None \<Rightarrow> (None, None)
      | Some r \<Rightarrow>
          (case Store (ChainDB_ptr r) blockData msgBlock of
             (p', e) \<Rightarrow> (Some (r\<lparr>ChainDB_ptr := p'\<rparr>), e)))"

text \<open>
  \<open>(*ChainDBRPC).SyncChainDBAsync\<close> reports on the channel \<open>res\<close>; the model returns the
  results sent. The method \<open>(*ChainDB).SyncChainDBAsync\<close> that it calls on a receiver
  that is not nil is not part of the sources at hand and is a parameter.
\<close>

record SyncResult =
  sr_Height :: int
  sr_Error :: "error option"

definition SyncChainDBAsync_RPC ::
  "(ChainDB option \<Rightarrow> 'a \<Rightarrow> SyncResult list) \<Rightarrow> ChainDBRPC option \<Rightarrow> 'a \<Rightarrow> SyncResult list" where
  "SyncChainDBAsync_RPC syncChainDBAsync dbr args =
     (case dbr of
        None \<Rightarrow> [\<lparr>sr_Height = - 1, sr_Error = Some ErrDisabled\<rparr>]
      | Some r \<Rightarrow> syncChainDBAsync (ChainDB_ptr r) args)"

section \<open>The reorg handler\<close>

text \<open>\<open>setVinsMainchainOneTxn\<close>: a failing statement is logged and skipped; an error of
  \<open>RowsAffected\<close> ends the function.\<close>

fun setVinsMainchainOneTxn :: "sqlDB \<Rightarrow> rowid list \<Rightarrow> bool \<Rightarrow> int \<Rightarrow> sqlDB \<times> int \<times> error option" where
  "setVinsMainchainOneTxn d [] isMainchain rowsUpdated = (d, rowsUpdated, None)"
| "setVinsMainchainOneTxn d (vinDbID # vinDbIDs) isMainchain rowsUpdated =
     (case ExecSetIsMainchainByVinID d vinDbID isMainchain of
        (d', (c, errRows), errExec) \<Rightarrow>
          if errExec \<noteq> None then setVinsMainchainOneTxn d' vinDbIDs isMainchain rowsUpdated
          else if errRows \<noteq> None then (d', 0, errRows)
          else setVinsMainchainOneTxn d' vinDbIDs isMainchain (rowsUpdated + c))"

fun setVinsMainchainForMany :: "sqlDB \<Rightarrow> (rowid list \<times> bool) list \<Rightarrow> int \<Rightarrow> sqlDB \<times> int \<times> error option" where
  "setVinsMainchainForMany d [] rowsUpdated = (d, rowsUpdated, None)"
| "setVinsMainchainForMany d ((vs, isMainchain) # rest) rowsUpdated =
     (case setVinsMainchainOneTxn d vs isMainchain 0 of
        (d', numUpd, e) \<Rightarrow>
          if e \<noteq> None then setVinsMainchainForMany d' rest rowsUpdated
          else setVinsMainchainForMany d' rest (rowsUpdated + numUpd))"

definition SetVinsMainchainByBlock ::
  "ChainDB \<Rightarrow> hash \<Rightarrow> ChainDB \<times> int \<times> rowid list list \<times> rowid list list \<times> error option" where
  "SetVinsMainchainByBlock pgb blockHash =
     (case RetrieveTxnsVinsVoutsByBlock (db pgb) blockHash False of
        (vinDbIDsBlk, voutDbIDsBlk, areMainchain, e) \<Rightarrow>
          (case e of
             Some e' \<Rightarrow> (pgb, 0, [], [], Some (ErrVinData blockHash e'))
           | None \<Rightarrow>
               (case setVinsMainchainForMany (db pgb) (zip vinDbIDsBlk areMainchain) 0 of
                  (d', vinsUpdated, e2) \<Rightarrow>
                    (pgb\<lparr>db := d'\<rparr>, vinsUpdated, vinDbIDsBlk, voutDbIDsBlk, e2))))"

text \<open>
  One pass of the loop of \<open>TipToSideChain\<close> on the tip block. Every step that fails is
  logged and the pass goes on; the errors logged are returned in order. The counters of
  rows updated are used for the log only. The last component is the hash that becomes the
  new tip.
\<close>

definition logErr :: "error option \<Rightarrow> error list" where
  "logErr e = (case e of None \<Rightarrow> [] | Some x \<Rightarrow> [x])"

definition tipToSideChainStep :: "ChainDB \<Rightarrow> hash \<Rightarrow> ChainDB \<times> error list \<times> hash" where
  "tipToSideChainStep pgb tipHash =
     (case SetMainchainByBlockHash (db pgb) tipHash False of
        (d1, previousHash, e1) \<Rightarrow>
     (case UpdateTransactionsMainchain d1 tipHash False of
        (d2, n2, ids2, e2) \<Rightarrow>
     (case SetVinsMainchainByBlock (pgb\<lparr>db := d2\<rparr>) tipHash of
        (pgb3, n3, vinDbIDsBlk, voutDbIDsBlk, e3) \<Rightarrow>
     (case UpdateAddressesMainchainByIDs (db pgb3) vinDbIDsBlk voutDbIDsBlk False of
        (d4, numAddrSpending, numAddrFunding, e4) \<Rightarrow>
     (case UpdateVotesMainchain d4 tipHash False of
        (d5, n5, e5) \<Rightarrow>
     (case UpdateTicketsMainchain d5 tipHash False of
        (d6, n6, e6) \<Rightarrow>
     (case BlockHeight (pgb3\<lparr>db := d6\<rparr>) previousHash of
        (h, e7) \<Rightarrow>
          (pgb3\<lparr>db := d6, bestBlock := h, bestBlockHash := previousHash\<rparr>,
           logErr e1 @ logErr e2 @ logErr e3 @ logErr e4 @ logErr e5 @ logErr e6 @ logErr e7,
           previousHash))))))))"

text \<open>The loop may run forever; \<open>None\<close> is the call that does not return.\<close>

partial_function (option) tipToSideChainLoop ::
  "ChainDB \<Rightarrow> hash \<Rightarrow> hash \<Rightarrow> int \<Rightarrow> error list \<Rightarrow> (ChainDB \<times> error list \<times> hash \<times> int \<times> error option) option" where
  "tipToSideChainLoop pgb mainRoot tipHash blocksMoved logged =
     (if tipHash \<noteq> mainRoot
      then (let r = tipToSideChainStep pgb tipHash
            in tipToSideChainLoop (fst r) mainRoot (snd (snd r)) (blocksMoved + 1)
                 (logged @ fst (snd r)))
      else Some (pgb, logged, tipHash, blocksMoved, None))"

definition TipToSideChain ::
  "ChainDB \<Rightarrow> hash \<Rightarrow> (ChainDB \<times> error list \<times> hash \<times> int \<times> error option) option" where
  "TipToSideChain pgb mainRoot = tipToSideChainLoop pgb mainRoot (bestBlockHash pgb) 0 []"

section \<open>The ticket-pool cache\<close>

text \<open>
  The package-level \<open>ticketPoolGraphsCache\<close>, keyed by chart grouping (an integer type).
  The chart data are opaque to the cache and are lists of numbers here; a nil slice is the
  empty list and a nil pointer is \<open>None\<close>. The donut chart is cached as a pointer, so
  an entry may be present and nil.
\<close>

type_synonym ChartGrouping = nat
type_synonym PoolTicketsData = "int list"

record ticketPoolDataCache =
  tp_Height :: "ChartGrouping \<rightharpoonup> nat"
  BarGraphsCache :: "ChartGrouping \<rightharpoonup> PoolTicketsData list"
  DonutGraphCache :: "ChartGrouping \<rightharpoonup> PoolTicketsData option"

text \<open>A Go map read of a key that is absent gives the zero value.\<close>

definition heightOf :: "ticketPoolDataCache \<Rightarrow> ChartGrouping \<Rightarrow> nat" where
  "heightOf c interval = (case tp_Height c interval of None \<Rightarrow> 0 | Some h \<Rightarrow> h)"

definition TicketPoolData ::
  "ticketPoolDataCache \<Rightarrow> ChartGrouping \<Rightarrow> nat
     \<Rightarrow> PoolTicketsData list \<times> PoolTicketsData option \<times> nat \<times> bool \<times> bool" where
  "TicketPoolData c interval height =
     ((case BarGraphsCache c interval of None \<Rightarrow> [] | Some b \<Rightarrow> b),
      (case DonutGraphCache c interval of None \<Rightarrow> None | Some dc \<Rightarrow> dc),
      heightOf c interval,
      BarGraphsCache c interval \<noteq> None \<and> DonutGraphCache c interval \<noteq> None,
      heightOf c interval \<noteq> height)"

definition UpdateTicketPoolData ::
  "ticketPoolDataCache \<Rightarrow> ChartGrouping \<Rightarrow> PoolTicketsData list \<Rightarrow> PoolTicketsData option \<Rightarrow> nat
     \<Rightarrow> ticketPoolDataCache" where
  "UpdateTicketPoolData c interval barGraphs donutcharts height =
     c\<lparr>tp_Height := (tp_Height c)(interval \<mapsto> height),
       BarGraphsCache := (BarGraphsCache c)(interval \<mapsto> barGraphs),
       DonutGraphCache := (DonutGraphCache c)(interval \<mapsto> donutcharts)\<rparr>"

text \<open>
  What \<open>TicketPoolVisualization\<close> meets: the cache and the height seen by the facade at the
  call; the updater locks \<open>tpUpdatePermission\<close>, each held by another goroutine
  (\<open>True\<close>, so that \<open>TryLock\<close> fails) or free, and a nil pointer for an interval without
  an entry; the cache and the height seen when a blocking \<open>Lock\<close> on the updater
  lock returns, that is after the updater in progress has finished; and the result of the
  database query \<open>ticketPoolVisualization\<close>, which is made by the updater only.
\<close>

record tpEnv =
  cacheNow :: ticketPoolDataCache
  heightNow :: nat
  tpUpdatePermission :: "ChartGrouping \<rightharpoonup> bool"
  cacheAfterWait :: ticketPoolDataCache
  heightAfterWait :: nat
  queryResult :: "PoolTicketsData list \<times> PoolTicketsData option \<times> nat \<times> error option"

text \<open>The path that the call takes.\<close>

datatype tpPath = Fresh | StaleNoWait | Waited | Updater | Crashed

text \<open>
  \<open>TicketPoolVisualization\<close>: the results are the bar charts, the donut chart, the height,
  the error, the cache after the call, and the path taken.
\<close>

definition TicketPoolVisualization ::
  "tpEnv \<Rightarrow> ChartGrouping
     \<Rightarrow> PoolTicketsData list \<times> PoolTicketsData option \<times> nat \<times> error option
        \<times> ticketPoolDataCache \<times> tpPath" where
  "TicketPoolVisualization env interval =
     (case TicketPoolData (cacheNow env) interval (heightNow env) of
        (barcharts, donutCharts, height, intervalFound, stale) \<Rightarrow>
          if intervalFound \<and> \<not> stale
          then (barcharts, donutCharts, height, None, cacheNow env, Fresh)
          else
          (case tpUpdatePermission env interval of
             None \<Rightarrow> ([], None, 0, Some (Panic ''nil pointer dereference''), cacheNow env, Crashed)
           | Some busy \<Rightarrow>
          if busy
          then
            (if \<not> intervalFound
             then
               (case TicketPoolData (cacheAfterWait env) interval (heightAfterWait env) of
                  (barcharts', donutCharts', height', intervalFound', stale') \<Rightarrow>
                    if \<not> intervalFound'
                    then ([], None, 0, Some ErrNoChartsData, cacheAfterWait env, Waited)
                    else (barcharts', donutCharts', height', None, cacheAfterWait env, Waited))
             else (barcharts, donutCharts, height, None, cacheNow env, StaleNoWait))
          else
            (case queryResult env of
               (barcharts', donutCharts', height', e) \<Rightarrow>
                 if e \<noteq> None then ([], None, 0, e, cacheNow env, Updater)
                 else (barcharts', donutCharts', height', None,
                       UpdateTicketPoolData (cacheNow env) interval barcharts' donutCharts' height',
                       Updater))))"

section \<open>Example states\<close>

definition emptyDB :: sqlDB where
  "emptyDB = \<lparr>db_vouts = [], db_vins = [], db_transactions = [], db_tickets = [], db_votes = [],
     db_misses = [], db_blocks = [], db_block_chain = [], db_addresses = [], db_failing = {}\<rparr>"

definition ticketA :: ticket_row where
  "ticketA = \<lparr>tk_tx_hash = ''a1'', tk_block_hash = ''b0'', tk_purchase_tx_db_id = 1,
      tk_pool_status = PoolStatusLive, tk_spend_type = TicketUnspent, tk_spend_height = 0,
      tk_spend_tx_db_id = 0, tk_is_mainchain = True\<rparr>"

definition ticketDB :: sqlDB where
  "ticketDB = emptyDB\<lparr>db_tickets := [ticketA]\<rparr>"

definition cacheA :: TicketTxnIDGetter where
  "cacheA = \<lparr>idCache = [''a1'' \<mapsto> 1]\<rparr>"

definition tpCacheEmpty :: ticketPoolDataCache where
  "tpCacheEmpty = \<lparr>tp_Height = Map.empty, BarGraphsCache = Map.empty, DonutGraphCache = Map.empty\<rparr>"

definition tpCacheDay :: ticketPoolDataCache where
  "tpCacheDay = \<lparr>tp_Height = [1 \<mapsto> 10], BarGraphsCache = [1 \<mapsto> [[3, 4]]],
                  DonutGraphCache = [1 \<mapsto> Some [7]]\<rparr>"

definition tpEnvStale :: tpEnv where
  "tpEnvStale = \<lparr>cacheNow = tpCacheDay, heightNow = 12, tpUpdatePermission = [1 \<mapsto> True],
                  cacheAfterWait = tpCacheEmpty, heightAfterWait = 12,
                  queryResult = ([], None, 0, None)\<rparr>"

definition tpEnvWait :: tpEnv where
  "tpEnvWait = \<lparr>cacheNow = tpCacheEmpty, heightNow = 10, tpUpdatePermission = [1 \<mapsto> True],
                 cacheAfterWait = tpCacheDay, heightAfterWait = 10,
                 queryResult = ([], None, 0, None)\<rparr>"

definition tpEnvAbsent :: tpEnv where
  "tpEnvAbsent = \<lparr>cacheNow = tpCacheEmpty, heightNow = 10, tpUpdatePermission = [1 \<mapsto> True],
                   cacheAfterWait = tpCacheEmpty, heightAfterWait = 10,
                   queryResult = ([], None, 0, None)\<rparr>"

definition sdb0 :: StakeDatabase where
  "sdb0 = \<lparr>PoolInfo = (\<lambda>h. Some []), ExistsExpiredTicket = (\<lambda>h. False), MissedByBlock = []\<rparr>"

definition block7 :: block_row where
  "block7 = \<lparr>bl_block = \<lparr>bk_Hash = ''b7'', bk_Height = 7, bk_PreviousHash = ''b6'', bk_VoteBits = 1,
                          bk_TxDbIDs = [], bk_STxDbIDs = []\<rparr>,
              bl_is_valid = True, bl_is_mainchain = True\<rparr>"

definition chainDB7 :: sqlDB where
  "chainDB7 = emptyDB\<lparr>db_blocks := [block7],
                 db_block_chain := [\<lparr>bc_block_db_id = 1, bc_prev_hash = ''b6'', bc_this_hash = ''b7'',
                                     bc_next_hash = []\<rparr>]\<rparr>"

definition pgb7 :: ChainDB where
  "pgb7 = \<lparr>db = chainDB7, dupChecks = True, bestBlock = 7, bestBlockHash = ''b7'',
            lastBlock = Map.empty, addressCounts = \<lparr>validHeight = 7, balance = Map.empty\<rparr>,
            stakeDB = sdb0, unspentTicketCache = Some \<lparr>idCache = Map.empty\<rparr>,
            devPrefetch = False, InBatchSync = False, InReorg = False\<rparr>"

definition coinbase8 :: MsgTx where
  "coinbase8 = \<lparr>mt_TxHash = ''c8'', mt_Type = TxTypeRegular,
                 mt_TxIn = [\<lparr>op_Hash = zeroHash, op_Index = 0, op_Tree = TxTreeRegular\<rparr>],
                 mt_TxOut = [(5, [''addr1''])]\<rparr>"

definition block8 :: MsgBlock where
  "block8 = \<lparr>mb_BlockHash = ''b8'', mb_PrevBlock = ''b7'', mb_Height = 8, mb_VoteBits = 1,
              mb_Time = 100, mb_Transactions = [coinbase8], mb_STransactions = []\<rparr>"

text \<open>The facade at block \<open>b7\<close> over a store in which one operation fails.\<close>

definition pgb7_fail :: "dbop \<Rightarrow> ChainDB" where
  "pgb7_fail opn = pgb7\<lparr>db := chainDB7\<lparr>db_failing := {opn}\<rparr>\<rparr>"

section \<open>Classes of errors\<close>

text \<open>The errors of the steps of \<open>StoreBlock\<close> that follow the insertion of the block
  row: the chain linkage and the updates of the previous block.\<close>

definition afterBlockRow :: "error \<Rightarrow> bool" where
  "afterBlockRow e =
     (e = ErrNoRows \<or>
      e \<in> ErrStorage ` {OpInsertBlockPrevNext, OpRetrieveBlockChainDbID, OpUpdateLastBlockValid,
                        OpUpdateBlockNext, OpUpdateLastVins, OpUpdateTransactionsValid,
                        OpUpdateLastAddressesValid})"

text \<open>The errors of \<open>CollectTicketSpendDBInfo\<close>'s loop.\<close>

definition collectError :: "error option \<Rightarrow> bool" where
  "collectError eo = (case eo of None \<Rightarrow> True | Some e \<Rightarrow>
     e = ErrTxidMismatch \<or> (\<exists>m. e = Panic m) \<or> (\<exists>h e0. e = ErrTicketDbID h e0))"

section \<open>Chains of blocks in the store\<close>

text \<open>The previous-hash link of a block in the blocks table, and the ancestor that is
  reached from a tip by following exactly \<open>n\<close> links, none of them from the ancestor
  itself.\<close>

definition prevOf :: "sqlDB \<Rightarrow> hash \<Rightarrow> hash option" where
  "prevOf d h = map_option (\<lambda>b. bk_PreviousHash (bl_block b))
                  (find_row (\<lambda>b. block_key b = h) (db_blocks d))"

fun reaches :: "sqlDB \<Rightarrow> nat \<Rightarrow> hash \<Rightarrow> hash \<Rightarrow> bool" where
  "reaches d 0 tip root = (tip = root)"
| "reaches d (Suc n) tip root =
     (tip \<noteq> root \<and> (case prevOf d tip of None \<Rightarrow> False | Some p \<Rightarrow> reaches d n p root))"

definition blockRow :: "hash \<Rightarrow> nat \<Rightarrow> hash \<Rightarrow> block_row" where
  "blockRow h n p = \<lparr>bl_block = \<lparr>bk_Hash = h, bk_Height = n, bk_PreviousHash = p, bk_VoteBits = 1,
                          bk_TxDbIDs = [], bk_STxDbIDs = []\<rparr>,
              bl_is_valid = True, bl_is_mainchain = True\<rparr>"

definition chainABC :: sqlDB where
  "chainABC = emptyDB\<lparr>db_blocks := [blockRow ''aa'' 1 ''00'', blockRow ''bb'' 2 ''aa'', blockRow ''cc'' 3 ''bb'']\<rparr>"

definition pgbABC :: "dbop set \<Rightarrow> ChainDB" where
  "pgbABC F = \<lparr>db = chainABC\<lparr>db_failing := F\<rparr>, dupChecks = True, bestBlock = 3, bestBlockHash = ''cc'',
            lastBlock = Map.empty, addressCounts = \<lparr>validHeight = 3, balance = Map.empty\<rparr>,
            stakeDB = sdb0, unspentTicketCache = Some \<lparr>idCache = Map.empty\<rparr>,
            devPrefetch = False, InBatchSync = False, InReorg = False\<rparr>"

section \<open>The rebuild of the ticket spending information\<close>




section \<open>Auxiliary notions for the ticket spends\<close>


definition spendUpdate :: "rowid \<times> rowid \<times> int \<times> TicketSpendType \<times> TicketPoolStatus \<Rightarrow> ticket_row list \<Rightarrow> ticket_row list" where
  "spendUpdate x t = fst (update_id (fst x)
      (\<lambda>r. r\<lparr>tk_spend_type := fst (snd (snd (snd x))), tk_spend_height := fst (snd (snd x)),
               tk_spend_tx_db_id := fst (snd x), tk_pool_status := snd (snd (snd (snd x)))\<rparr>) t)"

definition statusUpdate :: "hash \<times> TicketPoolStatus \<Rightarrow> ticket_row list \<Rightarrow> ticket_row list" where
  "statusUpdate x t = fst (update_where (\<lambda>r. tk_tx_hash r = fst x) (\<lambda>r. r\<lparr>tk_pool_status := snd x\<rparr>) t)"







section \<open>Properties of the ticket-ID cache\<close>

text \<open>
  C7. On a hit \<open>TxnDbID\<close> returns the cached row identifier, and with \<open>expire\<close> it removes
  the entry, so that a second lookup of the same hash goes to the row store. On a miss it
  returns what the row store answers and leaves the cache as it is. An entry is there
  after \<open>Set\<close>.
\<close>

theorem TxnDbID_lookup:
  "(idCache c txid = Some i \<longrightarrow>
      TxnDbID (Some c) d txid expire
        = (Some (if expire then c\<lparr>idCache := (idCache c)(txid := None)\<rparr> else c), i, None)
      \<and> (expire \<longrightarrow>
           TxnDbID (fst (TxnDbID (Some c) d txid expire)) d txid expire
             = (fst (TxnDbID (Some c) d txid expire), RetrieveTicketIDByHash d txid)))
   \<and> (idCache c txid = None \<longrightarrow>
        TxnDbID (Some c) d txid expire = (Some c, RetrieveTicketIDByHash d txid))
   \<and> (case Set (Some c) txid i of
         None \<Rightarrow> False
       | Some c' \<Rightarrow> idCache c' txid = Some i)"
  by (auto simp: TxnDbID_def Set_def split: prod.splits option.splits)

theorem TxnDbID_lookup_witness:
  "idCache cacheA ''a1'' = Some 1
   \<and> TxnDbID (Some cacheA) ticketDB ''a1'' True = (Some \<lparr>idCache = Map.empty\<rparr>, 1, None)
   \<and> TxnDbID (Some \<lparr>idCache = Map.empty\<rparr>) ticketDB ''a1'' True
        = (Some \<lparr>idCache = Map.empty\<rparr>, 1, None)
   \<and> idCache cacheA ''zz'' = None
   \<and> TxnDbID (Some cacheA) ticketDB ''zz'' False = (Some cacheA, 0, Some ErrNoRows)"
  using TxnDbID_lookup [of cacheA "''a1''" 1 ticketDB True]
        TxnDbID_lookup [of cacheA "''zz''" 1 ticketDB False]
  by (simp add: cacheA_def ticketDB_def emptyDB_def ticketA_def RetrieveTicketIDByHash_def
        fails_def find_id_def TxnDbID_def)

text \<open>
  C8, as stated, fails: the lookup on a nil cache does not fall back to the row store. The
  ticket \<open>a1\<close> is in the store, and the lookup on the nil cache panics.
\<close>

theorem nil_cache_lookup_counterexample:
  "snd (TxnDbID None ticketDB ''a1'' False) \<noteq> RetrieveTicketIDByHash ticketDB ''a1''
   \<and> snd (snd (TxnDbID None ticketDB ''a1'' False))
        = Some (Panic ''uninitialized TicketTxnIDGetter'')"
  by (simp add: TxnDbID_def ticketDB_def emptyDB_def ticketA_def RetrieveTicketIDByHash_def
        fails_def find_id_def)

text \<open>
  C8, amended. On a nil cache \<open>Set\<close> and \<open>SetN\<close> do nothing, and \<open>TxnDbID\<close> panics
  whatever the store, the hash and the flag.
\<close>

theorem nil_cache_operations:
  "Set None txid txDbID = None
   \<and> SetN None txids txDbIDs = (None, None)
   \<and> TxnDbID None d txid expire = (None, 0, Some (Panic ''uninitialized TicketTxnIDGetter''))"
  by (simp add: Set_def SetN_def TxnDbID_def)

section \<open>Properties of the entry points\<close>

text \<open>
  C10. \<open>Store\<close> on a nil \<open>ChainDB\<close> or a nil \<open>ChainDBRPC\<close> (or one whose \<open>ChainDB\<close> is nil)
  returns a nil error and there is no state for it to change, and \<open>SyncChainDBAsync\<close> on
  a nil \<open>ChainDBRPC\<close> reports one result with height \<open>-1\<close> and an error.
\<close>

theorem Store_nil_receiver:
  "Store None blockData msgBlock = (None, None)
   \<and> Store_RPC None blockData msgBlock = (None, None)
   \<and> Store_RPC (Some \<lparr>ChainDB_ptr = None\<rparr>) blockData msgBlock
        = (Some \<lparr>ChainDB_ptr = None\<rparr>, None)
   \<and> SyncChainDBAsync_RPC syncChainDBAsync None args
        = [\<lparr>sr_Height = - 1, sr_Error = Some ErrDisabled\<rparr>]"
  by (simp add: Store_def Store_RPC_def SyncChainDBAsync_RPC_def)

section \<open>Properties of the ticket-pool cache\<close>

text \<open>
  C9. When the updater lock of the interval is held by another goroutine and the cache is
  not fresh: if the interval is cached, the cached data are returned without waiting, stale
  as they may be; if not, the call waits for the updater and returns what the cache holds
  then, and reports that no charts data are available only if the interval is still absent.
\<close>

theorem TicketPoolVisualization_updater_busy:
  assumes "tpUpdatePermission env interval = Some True"
    and "TicketPoolData (cacheNow env) interval (heightNow env)
           = (barcharts, donutCharts, height, intervalFound, stale)"
    and "\<not> (intervalFound \<and> \<not> stale)"
  shows "TicketPoolVisualization env interval =
           (if intervalFound
            then (barcharts, donutCharts, height, None, cacheNow env, StaleNoWait)
            else (case TicketPoolData (cacheAfterWait env) interval (heightAfterWait env) of
                    (barcharts', donutCharts', height', intervalFound', stale') \<Rightarrow>
                      if intervalFound'
                      then (barcharts', donutCharts', height', None, cacheAfterWait env, Waited)
                      else ([], None, 0, Some ErrNoChartsData, cacheAfterWait env, Waited)))"
  using assms by (auto simp: TicketPoolVisualization_def split: prod.splits)

theorem TicketPoolVisualization_updater_busy_witness:
  "TicketPoolVisualization tpEnvStale 1 = ([[3, 4]], Some [7], 10, None, tpCacheDay, StaleNoWait)
   \<and> TicketPoolVisualization tpEnvWait 1 = ([[3, 4]], Some [7], 10, None, tpCacheDay, Waited)
   \<and> TicketPoolVisualization tpEnvAbsent 1
        = ([], None, 0, Some ErrNoChartsData, tpCacheEmpty, Waited)"
proof -
  have p: "tpUpdatePermission tpEnvStale 1 = Some True" "tpUpdatePermission tpEnvWait 1 = Some True"
    "tpUpdatePermission tpEnvAbsent 1 = Some True"
    by (simp_all add: tpEnvStale_def tpEnvWait_def tpEnvAbsent_def)
  have d1: "TicketPoolData (cacheNow tpEnvStale) 1 (heightNow tpEnvStale)
              = ([[3, 4]], Some [7], 10, True, True)"
    by (simp add: tpEnvStale_def tpCacheDay_def TicketPoolData_def heightOf_def)
  have d2: "TicketPoolData (cacheNow tpEnvWait) 1 (heightNow tpEnvWait) = ([], None, 0, False, True)"
    by (simp add: tpEnvWait_def tpCacheEmpty_def TicketPoolData_def heightOf_def)
  have d3: "TicketPoolData (cacheNow tpEnvAbsent) 1 (heightNow tpEnvAbsent)
              = ([], None, 0, False, True)"
    by (simp add: tpEnvAbsent_def tpCacheEmpty_def TicketPoolData_def heightOf_def)
  show ?thesis
    using TicketPoolVisualization_updater_busy [OF p(1) d1]
          TicketPoolVisualization_updater_busy [OF p(2) d2]
          TicketPoolVisualization_updater_busy [OF p(3) d3]
    by (simp add: tpEnvStale_def tpEnvWait_def tpEnvAbsent_def tpCacheDay_def tpCacheEmpty_def
          TicketPoolData_def heightOf_def)
qed

section \<open>Evaluation of the examples\<close>

lemma zeroHash_neq: "length s \<noteq> 64 \<Longrightarrow> s \<noteq> zeroHash" "length s \<noteq> 64 \<Longrightarrow> zeroHash \<noteq> s"
  by (auto simp: zeroHash_def)

lemmas store_defs = StoreBlock_def storeTxns_def storeBlockRow_def updateLastBlock_def updateLastBlockByID_def
    ExtractBlockTransactions_def treeTxns_def extractTx_def extractVouts_def extractVins_def MsgBlockToDBBlock_def
    InsertVouts_def InsertVins_def InsertTxns_def InsertAddressRows_def InsertBlock_def InsertBlockPrevNext_def
    fails_def insert_row_def find_id_def find_row_def fatal_def addressRowsOfVout_def fundingAddressRows_def
    storeStakeInfo_def updateTicketSpends_def InsertTickets_def InsertVotes_def voteRows_def CollectTicketSpendDBInfo_def
    unspentExpiresAndMisses_def SetSpendingForTickets_def SetPoolStatusForTicketsByHash_def
    vout_key_def vin_key_def tx_key_def address_key_def block_key_def ticket_key_def vote_key_def miss_key_def
    BlockStatus_def RetrieveBlockStatus_def RetrieveBlockChainDbID_def UpdateLastBlockValid_def UpdateBlockNext_def
    UpdateLastVins_def UpdateTransactionsValid_def UpdateLastAddressesValid_def update_where_def update_id_def
    regularTxIDs_def blockTxns_def SetSpendingForFundingOP_def collectEntry_def spendKind_def TxnDbID_def
    RetrieveTicketIDByHash_def Set_def newTicketRow_def votedTicket_def Let_def

lemmas example_defs = emptyDB_def sdb0_def block7_def chainDB7_def pgb7_def coinbase8_def block8_def
    pgb7_fail_def

section \<open>Errors and the best block\<close>


lemma InsertVouts_err:
  "InsertVouts d v c = (d', ids, rows, Some e) \<Longrightarrow> e = ErrStorage OpInsertVouts"
  by (auto simp: InsertVouts_def split: if_splits prod.splits)

lemma InsertVins_err:
  "InsertVins d v c = (d', ids, Some e) \<Longrightarrow> e = ErrStorage OpInsertVins"
  by (auto simp: InsertVins_def split: if_splits prod.splits)

lemma InsertTxns_err:
  "InsertTxns d v c = (d', ids, Some e) \<Longrightarrow> e = ErrStorage OpInsertTxns"
  by (auto simp: InsertTxns_def split: if_splits prod.splits)

lemma InsertTickets_err:
  "InsertTickets d v i c = (d', ids, txs, Some e) \<Longrightarrow> e = ErrStorage OpInsertTickets"
  by (auto simp: InsertTickets_def Let_def split: if_splits prod.splits)

lemma InsertVotes_err:
  "InsertVotes d v i f m c = (d', ms, Some e) \<Longrightarrow> e = ErrStorage OpInsertVotes"
  by (auto simp: InsertVotes_def Let_def split: if_splits prod.splits)

lemma InsertAddressRows_err:
  "InsertAddressRows d v c = (d', ids, Some e) \<Longrightarrow> e = ErrStorage OpInsertAddressRows"
  by (auto simp: InsertAddressRows_def split: if_splits prod.splits)

lemma InsertBlock_err:
  "InsertBlock d b v m c = (d', i, Some e) \<Longrightarrow> e = ErrStorage OpInsertBlock"
  by (auto simp: InsertBlock_def split: if_splits prod.splits)

lemma insertVoutsVins_err_set:
  "err (snd (snd (snd (insertVoutsVins chk tr xs d r))))
     \<in> {err r, Some (ErrStorage OpInsertVouts), Some (ErrStorage OpInsertVins)}"
proof (induction xs arbitrary: d r)
  case Nil
  then show ?case by simp
next
  case (Cons x xs)
  obtain dbtx vouts vins where x: "x = (dbtx, vouts, vins)" by (cases x) auto
  obtain d1 voutDbIds addressRows e1 where v: "InsertVouts d vouts chk = (d1, voutDbIds, addressRows, e1)"
    by (cases "InsertVouts d vouts chk") auto
  obtain d2 vinDbIds e2 where w: "InsertVins d1 vins chk = (d2, vinDbIds, e2)"
    by (cases "InsertVins d1 vins chk") auto
  have e1: "e1 = None \<or> e1 = Some (ErrStorage OpInsertVouts)"
    using InsertVouts_err [of d vouts chk d1 voutDbIds addressRows] v by (cases e1) auto
  have e2: "e2 = None \<or> e2 = Some (ErrStorage OpInsertVins)"
    using InsertVins_err [of d1 vins chk d2 vinDbIds] w by (cases e2) auto
  show ?case
  proof (cases "fatal e1")
    case True
    then show ?thesis using e1 by (auto simp: x v fatal_def)
  next
    case f1: False
    show ?thesis
    proof (cases "fatal e2")
      case True
      then show ?thesis using e2 f1 by (auto simp: x v w fatal_def)
    next
      case f2: False
      let ?r2 = "r\<lparr>numVouts := numVouts r + int (length voutDbIds),
                     numVins := numVins r + int (length vinDbIds)\<rparr>"
      obtain d3 txs rows r3 where rec: "insertVoutsVins chk tr xs d2 ?r2 = (d3, txs, rows, r3)"
        by (cases "insertVoutsVins chk tr xs d2 ?r2") auto
      have "err r3 \<in> {err r, Some (ErrStorage OpInsertVouts), Some (ErrStorage OpInsertVins)}"
        using Cons.IH [of d2 ?r2] rec by simp
      then show ?thesis
        using f1 f2 rec by (simp add: x v w Let_def)
    qed
  qed
qed

lemma insertVoutsVins_err:
  "insertVoutsVins chk tr xs d r = (d', txs, rows, r') \<Longrightarrow>
     err r' \<in> {err r, Some (ErrStorage OpInsertVouts), Some (ErrStorage OpInsertVins)}"
  using insertVoutsVins_err_set [of chk tr xs d r] by auto

lemma collectEntry_err_set:
  "collectError (snd (snd (collectEntry d c tx msgTx ids acc)))"
  by (auto simp: collectEntry_def collectError_def Let_def
      split: prod.splits option.splits list.splits error.splits)

lemma collectLoop_err_set:
  "collectError (snd (snd (collectLoop d c txs ms ids acc)))"
proof (induction d c txs ms ids acc rule: collectLoop.induct)
  case (1 d c msgTxns txDbIDs acc)
  then show ?case by (simp add: collectError_def)
next
  case (2 d c tx txs txDbIDs acc)
  then show ?case by (simp add: collectError_def)
next
  case (3 d c tx txs msgTx msgTxns txDbIDs acc)
  obtain c' acc' e where en: "collectEntry d c tx msgTx txDbIDs acc = (c', acc', e)"
    by (cases "collectEntry d c tx msgTx txDbIDs acc") auto
  show ?case
  proof (cases e)
    case None
    then show ?thesis using "3.IH" en by auto
  next
    case (Some a)
    then show ?thesis using collectEntry_err_set [of d c tx msgTx txDbIDs acc] en by simp
  qed
qed

lemma collectLoop_err:
  "collectLoop d c txs ms ids acc = (c', acc', Some e) \<Longrightarrow>
     e = ErrTxidMismatch \<or> (\<exists>m. e = Panic m) \<or> (\<exists>h e0. e = ErrTicketDbID h e0)"
  using collectLoop_err_set [of d c txs ms ids acc] by (simp add: collectError_def)

lemma CollectTicketSpendDBInfo_err:
  "CollectTicketSpendDBInfo pgb txs ids mb = (pgb', info, Some e) \<Longrightarrow>
     e = ErrTxidMismatch \<or> (\<exists>m. e = Panic m) \<or> (\<exists>h e0. e = ErrTicketDbID h e0)
     \<or> (\<exists>a b. e = ErrStakeTxCount a b)"
  by (auto simp: CollectTicketSpendDBInfo_def Let_def split: if_splits prod.splits dest: collectLoop_err)

lemma CollectTicketSpendDBInfo_best:
  "CollectTicketSpendDBInfo pgb txs ids mb = (pgb', info, e) \<Longrightarrow>
     bestBlock pgb' = bestBlock pgb \<and> bestBlockHash pgb' = bestBlockHash pgb"
  by (auto simp: CollectTicketSpendDBInfo_def Let_def split: if_splits prod.splits)

lemma updateTicketSpends_err:
  "updateTicketSpends pgb m txs ids ms = (pgb', Some e) \<Longrightarrow>
     e = ErrTxidMismatch \<or> (\<exists>m. e = Panic m) \<or> (\<exists>h e0. e = ErrTicketDbID h e0)
     \<or> (\<exists>a b. e = ErrStakeTxCount a b)"
  unfolding updateTicketSpends_def
  by (auto simp: Let_def split: if_splits prod.splits dest!: CollectTicketSpendDBInfo_err)

lemma updateTicketSpends_best:
  "updateTicketSpends pgb m txs ids ms = (pgb', e) \<Longrightarrow>
     bestBlock pgb' = bestBlock pgb \<and> bestBlockHash pgb' = bestBlockHash pgb"
  unfolding updateTicketSpends_def
  by (auto simp: Let_def split: if_splits prod.splits dest!: CollectTicketSpendDBInfo_best)

lemma storeStakeInfo_err:
  "storeStakeInfo pgb m txs ids u = (pgb', Some e) \<Longrightarrow>
     e = ErrStorage OpInsertTickets \<or> e = ErrStorage OpInsertVotes
     \<or> e = ErrTxidMismatch \<or> (\<exists>m. e = Panic m) \<or> (\<exists>h e0. e = ErrTicketDbID h e0)
     \<or> (\<exists>a b. e = ErrStakeTxCount a b)"
  unfolding storeStakeInfo_def
  by (auto simp: Let_def fatal_def split: if_splits prod.splits
      dest!: updateTicketSpends_err InsertVotes_err InsertTickets_err)

lemma storeStakeInfo_best:
  "storeStakeInfo pgb m txs ids u = (pgb', e) \<Longrightarrow>
     bestBlock pgb' = bestBlock pgb \<and> bestBlockHash pgb' = bestBlockHash pgb"
  unfolding storeStakeInfo_def
  by (auto simp: Let_def split: if_splits prod.splits dest!: updateTicketSpends_best)

lemma spendVins_err:
  "spendVins chk tx vins ids d n = (d', n', Some e) \<Longrightarrow> (\<exists>m. e = Panic m)"
  by (induction chk tx vins ids d n rule: spendVins.induct)
     (auto split: if_splits list.splits prod.splits)

lemma spendTxns_err:
  "spendTxns chk xs d n = (d', n', Some e) \<Longrightarrow> (\<exists>m. e = Panic m)"
  by (induction chk xs d n rule: spendTxns.induct)
     (auto split: if_splits prod.splits dest: spendVins_err)

lemma storeTxns_err:
  assumes "storeTxns pgb m tr v mc ua ut = (pgb', ids, r)" and "err r = Some e"
  shows "\<not> afterBlockRow e"
proof -
  obtain txs0 vouts vins where ex: "ExtractBlockTransactions (pg_MsgBlock m) tr v mc = (txs0, vouts, vins)"
    by (cases "ExtractBlockTransactions (pg_MsgBlock m) tr v mc") auto
  let ?m = "if \<not> mc then m\<lparr>pg_Validators := []\<rparr> else m"
  obtain d1 txs rows r1 where l1: "insertVoutsVins (dupChecks pgb) tr (zip txs0 (zip vouts vins)) (db pgb)
      \<lparr>numVins = 0, numVouts = 0, numAddresses = 0, err = None\<rparr> = (d1, txs, rows, r1)"
    by (cases "insertVoutsVins (dupChecks pgb) tr (zip txs0 (zip vouts vins)) (db pgb)
      \<lparr>numVins = 0, numVouts = 0, numAddresses = 0, err = None\<rparr>") auto
  have r1: "err r1 \<in> {None, Some (ErrStorage OpInsertVouts), Some (ErrStorage OpInsertVins)}"
    using insertVoutsVins_err [OF l1] by simp
  show ?thesis
  proof (cases "err r1 \<noteq> None")
    case True
    then have "r = r1" using assms(1) by (auto simp: storeTxns_def ex l1 Let_def)
    then show ?thesis using r1 True assms(2) by (auto simp: afterBlockRow_def)
  next
    case n1: False
    obtain d2 TxDbIDs e2 where l2: "InsertTxns d1 txs (dupChecks pgb) = (d2, TxDbIDs, e2)"
      by (cases "InsertTxns d1 txs (dupChecks pgb)") auto
    show ?thesis
    proof (cases "fatal e2")
      case True
      then have "err r = e2" using assms(1) n1 by (auto simp: storeTxns_def ex l1 l2 Let_def)
      then show ?thesis using InsertTxns_err [of d1 txs "dupChecks pgb" d2 TxDbIDs e] l2 assms(2)
        by (auto simp: afterBlockRow_def)
    next
      case n2: False
      obtain pgb3 e3 where l3: "(if tr = TxTreeStake
                                  then storeStakeInfo (pgb\<lparr>db := d2\<rparr>) ?m txs TxDbIDs ut
                                  else (pgb\<lparr>db := d2\<rparr>, None)) = (pgb3, e3)"
        by (cases "(if tr = TxTreeStake
                                  then storeStakeInfo (pgb\<lparr>db := d2\<rparr>) ?m txs TxDbIDs ut
                                  else (pgb\<lparr>db := d2\<rparr>, None))") auto
      have e3: "e3 = Some e \<Longrightarrow> \<not> afterBlockRow e"
        using l3 storeStakeInfo_err [of "pgb\<lparr>db := d2\<rparr>" ?m txs TxDbIDs ut pgb3 e]
        by (auto simp: afterBlockRow_def split: if_splits)
      show ?thesis
      proof (cases "e3 \<noteq> None")
        case True
        then have "err r = e3" using assms(1) n1 n2 l3 by (auto simp: storeTxns_def ex l1 l2 Let_def)
        then show ?thesis using e3 assms(2) by simp
      next
        case n3: False
        obtain d4 aids e4 where l4: "InsertAddressRows (db pgb3) (fundingAddressRows txs rows v mc) (dupChecks pgb3) = (d4, aids, e4)"
          by (cases "InsertAddressRows (db pgb3) (fundingAddressRows txs rows v mc) (dupChecks pgb3)") auto
        show ?thesis
        proof (cases "e4 \<noteq> None")
          case True
          then have "err r = e4" using assms(1) n1 n2 n3 l3 l4 by (auto simp: storeTxns_def ex l1 l2 Let_def)
          then show ?thesis using InsertAddressRows_err [of "db pgb3" _ "dupChecks pgb3" d4 aids e] l4 assms(2)
            by (auto simp: afterBlockRow_def)
        next
          case n4: False
          show ?thesis
          proof (cases ua)
            case False
            then have "r = r1" using assms(1) n1 n2 n3 n4 l3 l4 by (auto simp: storeTxns_def ex l1 l2 Let_def)
            then show ?thesis using n1 assms(2) by simp
          next
            case True
            obtain d5 n e5 where l5: "spendTxns (dupChecks pgb3) (zip txs vins) d4 0 = (d5, n, e5)"
              by (cases "spendTxns (dupChecks pgb3) (zip txs vins) d4 0") auto
            have "err r = e5" using True assms(1) n1 n2 n3 n4 l3 l4 l5 by (auto simp: storeTxns_def ex l1 l2 Let_def)
            then show ?thesis using spendTxns_err [of "dupChecks pgb3" _ d4 0 d5 n e] l5 assms(2)
              by (auto simp: afterBlockRow_def)
          qed
        qed
      qed
    qed
  qed
qed

lemma storeTxns_best:
  "storeTxns pgb m tr v mc ua ut = (pgb', ids, r) \<Longrightarrow>
     bestBlock pgb' = bestBlock pgb \<and> bestBlockHash pgb' = bestBlockHash pgb"
  unfolding storeTxns_def
  by (auto simp: Let_def split: if_splits prod.splits dest!: storeStakeInfo_best)


lemma updateLastBlockByID_best:
  "updateLastBlockByID pgb h i b mc = (pgb', e, ret) \<Longrightarrow>
     bestBlock pgb' = bestBlock pgb \<and> bestBlockHash pgb' = bestBlockHash pgb"
  unfolding updateLastBlockByID_def
  by (auto simp: Let_def split: if_splits prod.splits)

lemma updateLastBlockByID_err:
  "updateLastBlockByID pgb h i b mc = (pgb', Some e, ret) \<Longrightarrow> afterBlockRow e"
  unfolding updateLastBlockByID_def
  by (auto simp: Let_def afterBlockRow_def UpdateLastBlockValid_def UpdateBlockNext_def
        UpdateLastVins_def UpdateTransactionsValid_def UpdateLastAddressesValid_def
      split: if_splits prod.splits)

lemma updateLastBlock_best:
  "updateLastBlock pgb mb b mc e0 = (pgb', e, ret) \<Longrightarrow>
     bestBlock pgb' = bestBlock pgb \<and> bestBlockHash pgb' = bestBlockHash pgb"
  unfolding updateLastBlock_def
  by (auto simp: Let_def split: if_splits prod.splits option.splits dest: updateLastBlockByID_best)

lemma updateLastBlock_err:
  "updateLastBlock pgb mb b mc e0 = (pgb', Some e, ret) \<Longrightarrow> e0 = Some e \<or> afterBlockRow e"
  unfolding updateLastBlock_def
  by (auto simp: Let_def afterBlockRow_def RetrieveBlockChainDbID_def
      split: if_splits prod.splits option.splits dest: updateLastBlockByID_err)

lemma InsertBlockPrevNext_err:
  "InsertBlockPrevNext d i h p n = (d', Some e) \<Longrightarrow> e = ErrStorage OpInsertBlockPrevNext"
  by (auto simp: InsertBlockPrevNext_def split: if_splits prod.splits)

lemma storeBlockRow_best:
  assumes "storeBlockRow pgb mb b v mc nv no = (pgb', nv', no', Some e)"
  shows "(\<not> afterBlockRow e \<longrightarrow> bestBlock pgb' = bestBlock pgb \<and> bestBlockHash pgb' = bestBlockHash pgb)
       \<and> (afterBlockRow e \<longrightarrow> bestBlock pgb' = int (bk_Height b) \<and> bestBlockHash pgb' = bk_Hash b)"
proof -
  obtain d1 blockDbID e1 where i1: "InsertBlock (db pgb) b v mc (dupChecks pgb) = (d1, blockDbID, e1)"
    by (cases "InsertBlock (db pgb) b v mc (dupChecks pgb)") auto
  show ?thesis
  proof (cases e1)
    case (Some a)
    then have "pgb' = pgb\<lparr>db := d1\<rparr>" "e = a" using assms i1 by (auto simp: storeBlockRow_def)
    moreover have "a = ErrStorage OpInsertBlock" using InsertBlock_err i1 Some by blast
    ultimately show ?thesis by (simp add: afterBlockRow_def)
  next
    case None
    let ?pgb1 = "pgb\<lparr>db := d1, lastBlock := (lastBlock pgb)(mb_BlockHash mb \<mapsto> blockDbID),
                     bestBlock := int (bk_Height b), bestBlockHash := bk_Hash b\<rparr>"
    obtain d2 e2 where i2: "InsertBlockPrevNext d1 blockDbID (bk_Hash b) (bk_PreviousHash b) [] = (d2, e2)"
      by (cases "InsertBlockPrevNext d1 blockDbID (bk_Hash b) (bk_PreviousHash b) []") auto
    have e2: "e2 = None \<or> e2 = Some (ErrStorage OpInsertBlockPrevNext)"
      using InsertBlockPrevNext_err i2 by (cases e2) auto
    show ?thesis
    proof (cases "fatal e2")
      case True
      then have "pgb' = ?pgb1\<lparr>db := d2\<rparr>" "Some e = e2"
        using assms i1 i2 None by (auto simp: storeBlockRow_def Let_def)
      then show ?thesis using e2 by (auto simp: afterBlockRow_def)
    next
      case False
      then have e2n: "e2 = None" using e2 by (auto simp: fatal_def)
      obtain pgb3 e3 ret where u: "(if mb_PrevBlock mb \<noteq> zeroHash
                             then updateLastBlock (?pgb1\<lparr>db := d2\<rparr>) mb b mc e2
                             else (?pgb1\<lparr>db := d2\<rparr>, e2, False)) = (pgb3, e3, ret)"
        by (cases "(if mb_PrevBlock mb \<noteq> zeroHash
                             then updateLastBlock (?pgb1\<lparr>db := d2\<rparr>) mb b mc e2
                             else (?pgb1\<lparr>db := d2\<rparr>, e2, False))") auto
      have b3: "bestBlock pgb3 = int (bk_Height b) \<and> bestBlockHash pgb3 = bk_Hash b"
        using u updateLastBlock_best [of "?pgb1\<lparr>db := d2\<rparr>" mb b mc e2 pgb3 e3 ret]
        by (auto split: if_splits)
      have e3: "e3 = Some e \<Longrightarrow> afterBlockRow e"
        using u e2n updateLastBlock_err [of "?pgb1\<lparr>db := d2\<rparr>" mb b mc e2 pgb3 e ret]
        by (auto split: if_splits)
      have res: "e3 = Some e \<and> bestBlock pgb' = bestBlock pgb3 \<and> bestBlockHash pgb' = bestBlockHash pgb3"
        using assms i1 i2 None False u by (auto simp: storeBlockRow_def Let_def split: if_splits)
      then show ?thesis using b3 e3 by simp
    qed
  qed
qed

text \<open>
  C3, as stated, fails. The store holds block \<open>b7\<close> and the facade's best block is \<open>b7\<close>
  at height 7. Block \<open>b8\<close> is stored while \<open>InsertBlockPrevNext\<close> fails: \<open>StoreBlock\<close>
  returns that error, and the best block is \<open>b8\<close> at height 8.
\<close>

theorem StoreBlock_error_advances_counterexample:
  "snd (snd (snd (StoreBlock (pgb7_fail OpInsertBlockPrevNext) block8 [] True True True True)))
      = Some (ErrStorage OpInsertBlockPrevNext)
   \<and> Height (pgb7_fail OpInsertBlockPrevNext) = 7
   \<and> Height (fst (StoreBlock (pgb7_fail OpInsertBlockPrevNext) block8 [] True True True True)) = 8
   \<and> HashStr (pgb7_fail OpInsertBlockPrevNext) = ''b7''
   \<and> HashStr (fst (StoreBlock (pgb7_fail OpInsertBlockPrevNext) block8 [] True True True True)) = ''b8''"
  by (simp add: store_defs example_defs zeroHash_neq Height_def HashStr_def)

text \<open>
  C3, amended. When \<open>StoreBlock\<close> returns an error that does not come from a step after
  the insertion of the block row (the stake database lookup, either transaction tree, the
  block row itself), height and hash of the best block are as before the call. When the
  error comes from a later step, the best block is already the block stored.
\<close>

theorem StoreBlock_error_best_block:
  assumes "StoreBlock pgb msgBlock winningTickets isValid isMainchain ua ut = (pgb', nv, no, Some e)"
  shows "(\<not> afterBlockRow e \<longrightarrow> Height pgb' = Height pgb \<and> HashStr pgb' = HashStr pgb)
       \<and> (afterBlockRow e \<longrightarrow>
             Height pgb' = mb_Height msgBlock mod 2 ^ 64 \<and> HashStr pgb' = mb_BlockHash msgBlock)"
proof (cases "if isMainchain \<and> mb_PrevBlock msgBlock \<noteq> zeroHash
               then PoolInfo (stakeDB pgb) (mb_PrevBlock msgBlock) else Some []")
  case None
  then have "pgb' = pgb" "e = ErrPoolInfo (mb_BlockHash msgBlock)"
    using assms by (auto simp: StoreBlock_def Let_def)
  then show ?thesis by (simp add: afterBlockRow_def)
next
  case (Some winners)
  let ?pg = "\<lparr>pg_MsgBlock = msgBlock, pg_WinningTickets = winningTickets, pg_Validators = winners\<rparr>"
  obtain pgb1 ids1 r1 where s1: "storeTxns pgb ?pg TxTreeRegular isValid isMainchain ua ut = (pgb1, ids1, r1)"
    by (cases "storeTxns pgb ?pg TxTreeRegular isValid isMainchain ua ut") auto
  obtain pgb2 ids2 r2 where s2: "storeTxns pgb1 ?pg TxTreeStake isValid isMainchain ua ut = (pgb2, ids2, r2)"
    by (cases "storeTxns pgb1 ?pg TxTreeStake isValid isMainchain ua ut") auto
  have b2: "bestBlock pgb2 = bestBlock pgb \<and> bestBlockHash pgb2 = bestBlockHash pgb"
    using storeTxns_best [OF s1] storeTxns_best [OF s2] by simp
  show ?thesis
  proof (cases "err r2 = None \<and> err r1 = None")
    case True
    then have "storeBlockRow pgb2 msgBlock
                 ((MsgBlockToDBBlock msgBlock)\<lparr>bk_TxDbIDs := ids1, bk_STxDbIDs := ids2\<rparr>)
                 isValid isMainchain (numVins r2 + numVins r1) (numVouts r2 + numVouts r1)
               = (pgb', nv, no, Some e)"
      using assms Some s1 s2 by (simp add: StoreBlock_def Let_def)
    from storeBlockRow_best [OF this] show ?thesis
      using b2 by (simp add: Height_def HashStr_def MsgBlockToDBBlock_def nat_mod_distrib nat_power_eq)
  next
    case False
    then have "pgb' = pgb2 \<and> \<not> afterBlockRow e"
      using assms Some s1 s2 storeTxns_err [OF s1] storeTxns_err [OF s2]
      by (auto simp: StoreBlock_def Let_def afterBlockRow_def split: option.splits)
    then show ?thesis using b2 by (simp add: Height_def HashStr_def)
  qed
qed

theorem StoreBlock_error_best_block_witness:
  "StoreBlock (pgb7_fail OpInsertBlock) block8 [] True True True True
     = (fst (StoreBlock (pgb7_fail OpInsertBlock) block8 [] True True True True), 1, 1,
        Some (ErrStorage OpInsertBlock))
   \<and> \<not> afterBlockRow (ErrStorage OpInsertBlock)
   \<and> Height (fst (StoreBlock (pgb7_fail OpInsertBlock) block8 [] True True True True)) = 7
   \<and> HashStr (fst (StoreBlock (pgb7_fail OpInsertBlock) block8 [] True True True True)) = ''b7''
   \<and> StoreBlock (pgb7_fail OpUpdateBlockNext) block8 [] True True True True
     = (fst (StoreBlock (pgb7_fail OpUpdateBlockNext) block8 [] True True True True), 1, 1,
        Some (ErrStorage OpUpdateBlockNext))
   \<and> afterBlockRow (ErrStorage OpUpdateBlockNext)
   \<and> Height (fst (StoreBlock (pgb7_fail OpUpdateBlockNext) block8 [] True True True True)) = 8
   \<and> HashStr (fst (StoreBlock (pgb7_fail OpUpdateBlockNext) block8 [] True True True True)) = ''b8''"
proof -
  have e1: "StoreBlock (pgb7_fail OpInsertBlock) block8 [] True True True True
     = (fst (StoreBlock (pgb7_fail OpInsertBlock) block8 [] True True True True), 1, 1,
        Some (ErrStorage OpInsertBlock))"
    by (simp add: store_defs example_defs zeroHash_neq)
  have e2: "StoreBlock (pgb7_fail OpUpdateBlockNext) block8 [] True True True True
     = (fst (StoreBlock (pgb7_fail OpUpdateBlockNext) block8 [] True True True True), 1, 1,
        Some (ErrStorage OpUpdateBlockNext))"
    by (simp add: store_defs example_defs zeroHash_neq)
  have h: "Height (pgb7_fail OpInsertBlock) = 7" "HashStr (pgb7_fail OpInsertBlock) = ''b7''"
    "mb_Height block8 mod 2 ^ 64 = 8" "mb_BlockHash block8 = ''b8''"
    by (simp_all add: example_defs Height_def HashStr_def)
  have a: "\<not> afterBlockRow (ErrStorage OpInsertBlock)" "afterBlockRow (ErrStorage OpUpdateBlockNext)"
    by (simp_all add: afterBlockRow_def)
  show ?thesis
    using StoreBlock_error_best_block [OF e1] StoreBlock_error_best_block [OF e2] e1 e2 h a
    by simp
qed

section \<open>The walk of the reorg handler\<close>

lemma setVinsMainchainOneTxn_frame:
  "db_blocks (fst (setVinsMainchainOneTxn d ids m n)) = db_blocks d
   \<and> db_failing (fst (setVinsMainchainOneTxn d ids m n)) = db_failing d"
  by (induction d ids m n rule: setVinsMainchainOneTxn.induct)
     (auto simp: ExecSetIsMainchainByVinID_def split: prod.splits if_splits)

lemma setVinsMainchainForMany_frame:
  "db_blocks (fst (setVinsMainchainForMany d xs n)) = db_blocks d
   \<and> db_failing (fst (setVinsMainchainForMany d xs n)) = db_failing d"
proof (induction d xs n rule: setVinsMainchainForMany.induct)
  case (1 d rowsUpdated)
  then show ?case by simp
next
  case (2 d vs isMainchain rest rowsUpdated)
  obtain d' numUpd e where s: "setVinsMainchainOneTxn d vs isMainchain 0 = (d', numUpd, e)"
    by (cases "setVinsMainchainOneTxn d vs isMainchain 0") auto
  have f: "db_blocks d' = db_blocks d \<and> db_failing d' = db_failing d"
    using setVinsMainchainOneTxn_frame [of d vs isMainchain 0] s by simp
  show ?case using "2.IH" s f by (cases "e = None") auto
qed

lemma SetVinsMainchainByBlock_frame:
  "db_blocks (db (fst (SetVinsMainchainByBlock pgb h))) = db_blocks (db pgb)
   \<and> db_failing (db (fst (SetVinsMainchainByBlock pgb h))) = db_failing (db pgb)"
proof -
  obtain a b c e where r: "RetrieveTxnsVinsVoutsByBlock (db pgb) h False = (a, b, c, e)"
    by (cases "RetrieveTxnsVinsVoutsByBlock (db pgb) h False") auto
  show ?thesis using setVinsMainchainForMany_frame [of "db pgb" "zip a c" 0]
    by (auto simp: SetVinsMainchainByBlock_def r split: option.splits prod.splits)
qed

lemma find_map_key:
  "(\<And>r. P (f r) = P r) \<Longrightarrow> List.find P (map f t) = map_option f (List.find P t)"
  by (induction t) auto

lemma prevOf_SetMainchain:
  "prevOf (fst (SetMainchainByBlockHash d h m)) x = prevOf d x
   \<and> db_failing (fst (SetMainchainByBlockHash d h m)) = db_failing d"
proof -
  let ?f = "\<lambda>b. if block_key b = h then b\<lparr>bl_is_mainchain := m\<rparr> else b"
  have k: "\<And>r. (block_key (?f r) = x) = (block_key r = x)" by (simp add: block_key_def)
  have "List.find (\<lambda>b. block_key b = x) (map ?f (db_blocks d))
          = map_option ?f (List.find (\<lambda>b. block_key b = x) (db_blocks d))"
    by (rule find_map_key) (simp add: block_key_def)
  moreover have "(\<lambda>x. bk_PreviousHash (bl_block (?f x))) = (\<lambda>b. bk_PreviousHash (bl_block b))"
    by auto
  ultimately show ?thesis
    by (simp add: SetMainchainByBlockHash_def prevOf_def find_row_def update_where_def
          option.map_comp comp_def split: option.splits)
qed

lemma tipToSideChainStep_props:
  assumes "tipToSideChainStep pgb tip = (pgb', logged, nxt)"
  shows "prevOf (db pgb') x = prevOf (db pgb) x"
    and "db_failing (db pgb') = db_failing (db pgb)"
    and "nxt = fst (snd (SetMainchainByBlockHash (db pgb) tip False))"
    and "bestBlockHash pgb' = nxt"
proof -
  obtain d1 previousHash e1 where s1: "SetMainchainByBlockHash (db pgb) tip False = (d1, previousHash, e1)"
    by (cases "SetMainchainByBlockHash (db pgb) tip False") auto
  obtain d2 n2 ids2 e2 where s2: "UpdateTransactionsMainchain d1 tip False = (d2, n2, ids2, e2)"
    by (cases "UpdateTransactionsMainchain d1 tip False") auto
  obtain pgb3 n3 vi vo e3 where s3: "SetVinsMainchainByBlock (pgb\<lparr>db := d2\<rparr>) tip = (pgb3, n3, vi, vo, e3)"
    by (cases "SetVinsMainchainByBlock (pgb\<lparr>db := d2\<rparr>) tip") auto
  obtain d4 ns nf e4 where s4: "UpdateAddressesMainchainByIDs (db pgb3) vi vo False = (d4, ns, nf, e4)"
    by (cases "UpdateAddressesMainchainByIDs (db pgb3) vi vo False") auto
  obtain d5 n5 e5 where s5: "UpdateVotesMainchain d4 tip False = (d5, n5, e5)"
    by (cases "UpdateVotesMainchain d4 tip False") auto
  obtain d6 n6 e6 where s6: "UpdateTicketsMainchain d5 tip False = (d6, n6, e6)"
    by (cases "UpdateTicketsMainchain d5 tip False") auto
  have f1: "prevOf d1 x = prevOf (db pgb) x \<and> db_failing d1 = db_failing (db pgb)"
    using prevOf_SetMainchain [of "db pgb" tip False x] s1 by simp
  have f2: "db_blocks d2 = db_blocks d1 \<and> db_failing d2 = db_failing d1"
    using s2 by (auto simp: UpdateTransactionsMainchain_def Let_def split: if_splits prod.splits)
  have f3: "db_blocks (db pgb3) = db_blocks d2 \<and> db_failing (db pgb3) = db_failing d2"
    using SetVinsMainchainByBlock_frame [of "pgb\<lparr>db := d2\<rparr>" tip] s3 by simp
  have f4: "db_blocks d4 = db_blocks (db pgb3) \<and> db_failing d4 = db_failing (db pgb3)"
    using s4 by (auto simp: UpdateAddressesMainchainByIDs_def split: if_splits prod.splits)
  have f5: "db_blocks d5 = db_blocks d4 \<and> db_failing d5 = db_failing d4"
    using s5 by (auto simp: UpdateVotesMainchain_def split: if_splits prod.splits)
  have f6: "db_blocks d6 = db_blocks d5 \<and> db_failing d6 = db_failing d5"
    using s6 by (auto simp: UpdateTicketsMainchain_def split: if_splits prod.splits)
  have res: "db pgb' = d6 \<and> nxt = previousHash \<and> bestBlockHash pgb' = previousHash"
    using assms by (auto simp: tipToSideChainStep_def s1 s2 s3 s4 s5 s6 split: prod.splits)
  have pv: "prevOf d6 x = prevOf d1 x"
    using f2 f3 f4 f5 f6 by (simp add: prevOf_def)
  show "prevOf (db pgb') x = prevOf (db pgb) x" using res pv f1 by simp
  show "db_failing (db pgb') = db_failing (db pgb)" using res f1 f2 f3 f4 f5 f6 by simp
  show "nxt = fst (snd (SetMainchainByBlockHash (db pgb) tip False))" using res s1 by simp
  show "bestBlockHash pgb' = nxt" using res by simp
qed

lemma SetMainchain_next:
  "OpSetMainchainByBlockHash \<notin> db_failing d \<Longrightarrow> prevOf d tip = Some p \<Longrightarrow>
     fst (snd (SetMainchainByBlockHash d tip False)) = p"
  by (auto simp: SetMainchainByBlockHash_def prevOf_def fails_def update_where_def split: option.splits)

lemma reaches_cong: "(\<And>x. prevOf d' x = prevOf d x) \<Longrightarrow> reaches d' n tip root = reaches d n tip root"
  by (induction n arbitrary: tip) (auto split: option.splits)

lemma tipToSideChainLoop_returns:
  assumes "OpSetMainchainByBlockHash \<notin> db_failing (db pgb)"
    and "reaches (db pgb) n tip root"
  shows "\<exists>pgb' logged'. tipToSideChainLoop pgb root tip moved logged
           = Some (pgb', logged', root, moved + int n, None)"
  using assms
proof (induction n arbitrary: pgb tip moved logged)
  case 0
  then show ?case by (simp add: tipToSideChainLoop.simps)
next
  case (Suc n)
  from Suc.prems(2) obtain p where ne: "tip \<noteq> root" and p: "prevOf (db pgb) tip = Some p"
    and r: "reaches (db pgb) n p root"
    by (auto split: option.splits)
  obtain pgb1 l1 nxt where st: "tipToSideChainStep pgb tip = (pgb1, l1, nxt)"
    by (cases "tipToSideChainStep pgb tip") auto
  have nx: "nxt = p"
    using tipToSideChainStep_props(3) [OF st] SetMainchain_next [OF Suc.prems(1) p] by simp
  have f: "OpSetMainchainByBlockHash \<notin> db_failing (db pgb1)"
    using tipToSideChainStep_props(2) [OF st] Suc.prems(1) by simp
  have r1: "reaches (db pgb1) n p root"
    using r reaches_cong [of "db pgb1" "db pgb" n p root] tipToSideChainStep_props(1) [OF st] by simp
  from Suc.IH [OF f r1, of "moved + 1" "logged @ l1"]
  obtain pgb' logged' where "tipToSideChainLoop pgb1 root p (moved + 1) (logged @ l1)
      = Some (pgb', logged', root, moved + 1 + int n, None)" by blast
  then show ?case
    using ne st nx by (subst tipToSideChainLoop.simps) (simp add: Let_def add.assoc)
qed

text \<open>
  If the block step does not fail, the walk from the tip returns at the ancestor with the
  number of blocks walked and a nil error, whichever of the other steps fail.
\<close>

theorem TipToSideChain_returns:
  assumes "OpSetMainchainByBlockHash \<notin> db_failing (db pgb)"
    and "reaches (db pgb) n (bestBlockHash pgb) mainRoot"
  shows "\<exists>pgb' logged. TipToSideChain pgb mainRoot = Some (pgb', logged, mainRoot, int n, None)"
  using tipToSideChainLoop_returns [OF assms, of 0 "[]"] by (simp add: TipToSideChain_def)

lemma step_fail:
  assumes "OpSetMainchainByBlockHash \<in> db_failing (db pgb)"
  shows "snd (snd (tipToSideChainStep pgb tip)) = []"
    and "OpSetMainchainByBlockHash \<in> db_failing (db (fst (tipToSideChainStep pgb tip)))"
proof -
  obtain pgb1 l1 nxt where st: "tipToSideChainStep pgb tip = (pgb1, l1, nxt)"
    by (cases "tipToSideChainStep pgb tip") auto
  show "snd (snd (tipToSideChainStep pgb tip)) = []"
    using tipToSideChainStep_props(3) [OF st] assms st
    by (simp add: SetMainchainByBlockHash_def fails_def)
  show "OpSetMainchainByBlockHash \<in> db_failing (db (fst (tipToSideChainStep pgb tip)))"
    using tipToSideChainStep_props(2) [OF st] assms st by simp
qed

lemma loop_diverges_aux:
  assumes "tipToSideChainLoop pgb root tip moved logged = Some y"
  shows "OpSetMainchainByBlockHash \<in> db_failing (db pgb) \<longrightarrow> root \<noteq> [] \<longrightarrow> tip \<noteq> root \<longrightarrow> False"
proof (rule tipToSideChainLoop.raw_induct
         [where P = "\<lambda>pgb root tip moved logged y.
              OpSetMainchainByBlockHash \<in> db_failing (db pgb) \<longrightarrow> root \<noteq> [] \<longrightarrow> tip \<noteq> root \<longrightarrow> False",
          OF _ assms])
  fix f pgb root tip moved logged y
  assume IH: "\<And>pgb root tip moved logged y. f pgb root tip moved logged = Some y \<Longrightarrow>
          OpSetMainchainByBlockHash \<in> db_failing (db pgb) \<longrightarrow> root \<noteq> [] \<longrightarrow> tip \<noteq> root \<longrightarrow> False"
    and eq: "(if tip \<noteq> root
      then let r = tipToSideChainStep pgb tip
           in f (fst r) root (snd (snd r)) (moved + 1) (logged @ fst (snd r))
      else Some (pgb, logged, tip, moved, None)) = Some y"
  show "OpSetMainchainByBlockHash \<in> db_failing (db pgb) \<longrightarrow> root \<noteq> [] \<longrightarrow> tip \<noteq> root \<longrightarrow> False"
  proof (intro impI)
    assume fl: "OpSetMainchainByBlockHash \<in> db_failing (db pgb)" and rt: "root \<noteq> []" and ne: "tip \<noteq> root"
    let ?r = "tipToSideChainStep pgb tip"
    from eq ne have "f (fst ?r) root (snd (snd ?r)) (moved + 1) (logged @ fst (snd ?r)) = Some y"
      by (simp add: Let_def)
    from IH [OF this] step_fail [OF fl, of tip] rt show False by auto
  qed
qed

text \<open>
  C6 at a failing input. The store holds the chain \<open>aa\<close>, \<open>bb\<close>, \<open>cc\<close>; the tip is \<open>cc\<close>
  and the ancestor \<open>aa\<close> is reached from it in two links. With \<open>SetMainchainByBlockHash\<close>
  failing, the walk goes on from the empty hash that the failed step returned, and the call
  does not return.
\<close>

theorem TipToSideChain_diverges:
  "TipToSideChain (pgbABC {OpSetMainchainByBlockHash}) ''aa'' = None
   \<and> reaches (db (pgbABC {OpSetMainchainByBlockHash})) 2 (bestBlockHash (pgbABC {OpSetMainchainByBlockHash})) ''aa''"
proof -
  have "TipToSideChain (pgbABC {OpSetMainchainByBlockHash}) ''aa'' = Some y \<Longrightarrow> False" for y
    using loop_diverges_aux [of "pgbABC {OpSetMainchainByBlockHash}" "''aa''" "''cc''" 0 "[]" y]
    by (simp add: TipToSideChain_def pgbABC_def)
  then have "TipToSideChain (pgbABC {OpSetMainchainByBlockHash}) ''aa'' = None"
    by (cases "TipToSideChain (pgbABC {OpSetMainchainByBlockHash}) ''aa''") auto
  moreover have "reaches (db (pgbABC {OpSetMainchainByBlockHash})) 2 (bestBlockHash (pgbABC {OpSetMainchainByBlockHash})) ''aa''"
    by (simp add: pgbABC_def chainABC_def emptyDB_def blockRow_def prevOf_def find_row_def block_key_def
          numeral_2_eq_2)
  ultimately show ?thesis by simp
qed

theorem TipToSideChain_returns_witness:
  "OpSetMainchainByBlockHash \<notin> db_failing (db (pgbABC {OpUpdateVotesMainchain, OpRetrieveBlockHeight}))
   \<and> reaches (db (pgbABC {OpUpdateVotesMainchain, OpRetrieveBlockHeight})) 2 ''cc'' ''aa''
   \<and> (\<exists>pgb' logged. TipToSideChain (pgbABC {OpUpdateVotesMainchain, OpRetrieveBlockHeight}) ''aa''
          = Some (pgb', logged, ''aa'', 2, None))"
proof -
  have f: "OpSetMainchainByBlockHash \<notin> db_failing (db (pgbABC {OpUpdateVotesMainchain, OpRetrieveBlockHeight}))"
    by (simp add: pgbABC_def)
  have r: "reaches (db (pgbABC {OpUpdateVotesMainchain, OpRetrieveBlockHeight})) 2
             (bestBlockHash (pgbABC {OpUpdateVotesMainchain, OpRetrieveBlockHeight})) ''aa''"
    by (simp add: pgbABC_def chainABC_def emptyDB_def blockRow_def prevOf_def find_row_def block_key_def
          numeral_2_eq_2)
  show ?thesis using TipToSideChain_returns [OF f r] f r by (simp add: pgbABC_def)
qed

section \<open>The classification of ticket spends\<close>






lemma update_id_length [simp]: "length (fst (update_id i f t)) = length t"
  by (simp add: update_id_def)



lemma spendUpdate_length [simp]: "length (spendUpdate x t) = length t"
  by (simp add: spendUpdate_def)

lemma fold_spendUpdate_length [simp]: "length (fold spendUpdate xs t) = length t"
  by (induction xs arbitrary: t) simp_all





lemma statusUpdate_length [simp]: "length (statusUpdate x t) = length t"
  by (simp add: statusUpdate_def update_where_def)

lemma fold_statusUpdate_length [simp]: "length (fold statusUpdate xs t) = length t"
  by (induction xs arbitrary: t) simp_all










end
